theory Spec2Isabelle
  imports Main "HOL-Library.Sublist"
begin

section \<open>JavaScript primitives used by the sources\<close>

text \<open>
  A string is the list of the bytes of its UTF-8 encoding.  Characters outside ASCII
  are opaque to the model: they are neither white space nor letters.  A JavaScript
  Number that holds an integer is an \<open>int\<close>; \<open>NaN\<close> and \<open>undefined\<close> are \<open>None\<close>.
\<close>

definition is_digit :: "char \<Rightarrow> bool" where
  "is_digit c = (48 \<le> (of_char c :: nat) \<and> (of_char c :: nat) \<le> 57)"

definition digit_val :: "char \<Rightarrow> int" where
  "digit_val c = int (of_char c) - 48"

definition digits_value :: "string \<Rightarrow> int" where
  "digits_value ds = foldl (\<lambda>a c. 10 * a + digit_val c) 0 ds"

text \<open>White space as \<open>parseInt\<close> and \<open>trim\<close> see it (in ASCII): TAB, LF, VT, FF, CR, SP.\<close>

definition is_js_whitespace :: "char \<Rightarrow> bool" where
  "is_js_whitespace c = ((of_char c :: nat) \<in> {9, 10, 11, 12, 13, 32})"

text \<open>
  \<open>Number.parseInt(s, 10)\<close>: skip leading white space, read an optional sign, then the
  longest run of decimal digits; an empty run is \<open>NaN\<close>.
\<close>

definition parseInt10 :: "string \<Rightarrow> int option" where
  "parseInt10 s =
     (let S = dropWhile is_js_whitespace s;
          sgn = (case S of [] \<Rightarrow> 1 | c # cs \<Rightarrow> if c = CHR ''-'' then - 1 else (1 :: int));
          S' = (case S of [] \<Rightarrow> []
                | c # cs \<Rightarrow> if c = CHR ''-'' \<or> c = CHR ''+'' then cs else S);
          Z = takeWhile is_digit S'
      in if Z = [] then None else Some (sgn * digits_value Z))"

fun digits_of :: "nat \<Rightarrow> string" where
  "digits_of n =
     (if n < 10 then [char_of (48 + n)] else digits_of (n div 10) @ [char_of (48 + n mod 10)])"

declare digits_of.simps [simp del]

text \<open>
  \<open>String(n)\<close> for a Number holding the integer \<open>n\<close>.  Below \<open>10^21\<close> in magnitude it is
  the decimal expansion, and from \<open>10^21\<close> on it is exponent notation: the first digit,
  then, when further digits other than zeros follow, a point and the digits up to the
  last that is not zero, then \<open>e+\<close> and the exponent.  The digits are those of \<open>n\<close>.
  These are the digits JavaScript prints for a safe integer (magnitude at most
  \<open>2^53 - 1\<close>) and for an integer of at most 15 significant digits, as \<open>1e21\<close> is; for
  the other Numbers JavaScript prints rounded digits, and the properties below do not
  speak of them.
\<close>

definition exponent_form :: "nat \<Rightarrow> string" where
  "exponent_form n =
     (case digits_of n of
        [] \<Rightarrow> []
      | d # ds \<Rightarrow>
          (let fraction = rev (dropWhile (\<lambda>c. c = CHR ''0'') (rev ds))
           in d # (if fraction = [] then [] else CHR ''.'' # fraction) @ ''e+'' @
              digits_of (length ds)))"

definition number_toString :: "int \<Rightarrow> string" where
  "number_toString n =
     (if \<bar>n\<bar> < 1000000000000000000000 then
        (if n < 0 then CHR ''-'' # digits_of (nat (- n)) else digits_of (nat n))
      else
        (if n < 0 then CHR ''-'' # exponent_form (nat (- n)) else exponent_form (nat n)))"

text \<open>\<open>Number.isSafeInteger\<close> on a Number holding an integer.\<close>

definition is_safe_integer :: "int \<Rightarrow> bool" where
  "is_safe_integer n = (\<bar>n\<bar> \<le> 9007199254740991)"

datatype js_value = JUndefined | JNull | JBool bool | JNum int | JStr string

fun js_toString :: "js_value \<Rightarrow> string" where
  "js_toString JUndefined = ''undefined''"
| "js_toString JNull = ''null''"
| "js_toString (JBool b) = (if b then ''true'' else ''false'')"
| "js_toString (JNum n) = number_toString n"
| "js_toString (JStr s) = s"

text \<open>\<open>String.prototype.toLowerCase\<close>, \<open>includes\<close>, \<open>trim\<close>.\<close>

definition lower_char :: "char \<Rightarrow> char" where
  "lower_char c =
     (if 65 \<le> (of_char c :: nat) \<and> (of_char c :: nat) \<le> 90 then char_of (of_char c + 32 :: nat)
      else c)"

definition toLowerCase :: "string \<Rightarrow> string" where
  "toLowerCase s = map lower_char s"

fun js_includes :: "string \<Rightarrow> string \<Rightarrow> bool" where
  "js_includes [] sub = (sub = [])"
| "js_includes (c # cs) sub = (prefix sub (c # cs) \<or> js_includes cs sub)"

definition trim :: "string \<Rightarrow> string" where
  "trim s = rev (dropWhile is_js_whitespace (rev (dropWhile is_js_whitespace s)))"

text \<open>
  \<open>s.replace("~", home)\<close> replaces the first tilde only (the home directory is taken to
  contain no \<open>$\<close>, which \<open>replace\<close> would expand).
\<close>

fun expand_home :: "string \<Rightarrow> string \<Rightarrow> string" where
  "expand_home home [] = []"
| "expand_home home (c # cs) = (if c = CHR ''~'' then home @ cs else c # expand_home home cs)"

text \<open>\<open>keyLine.replaceAll("'", String.raw`'\''`)\<close>: every single quote becomes \<open>'\''\<close>.\<close>

definition escape_quotes :: "string \<Rightarrow> string" where
  "escape_quotes s =
     concat (map (\<lambda>c. if c = CHR 0x27 then [CHR 0x27, CHR 0x5C, CHR 0x27, CHR 0x27] else [c]) s)"

text \<open>\<open>Buffer.from(s).toString('base64')\<close>: standard base64 with padding.\<close>

definition b64_digit :: "nat \<Rightarrow> char" where
  "b64_digit n =
     (if n < 26 then char_of (65 + n)
      else if n < 52 then char_of (97 + (n - 26))
      else if n < 62 then char_of (48 + (n - 52))
      else if n = 62 then CHR ''+'' else CHR ''/'')"

fun base64_bytes :: "nat list \<Rightarrow> string" where
  "base64_bytes [] = []"
| "base64_bytes [a] = [b64_digit (a div 4), b64_digit ((a mod 4) * 16), CHR ''='', CHR ''='']"
| "base64_bytes [a, b] =
     [b64_digit (a div 4), b64_digit ((a mod 4) * 16 + b div 16), b64_digit ((b mod 16) * 4),
      CHR ''='']"
| "base64_bytes (a # b # c # rest) =
     [b64_digit (a div 4), b64_digit ((a mod 4) * 16 + b div 16),
      b64_digit ((b mod 16) * 4 + c div 64), b64_digit (c mod 64)] @ base64_bytes rest"

definition base64 :: "string \<Rightarrow> string" where
  "base64 s = base64_bytes (map of_char s)"

section \<open>utils/edge-cases.js: validatePort\<close>

text \<open>
  \<open>validatePort(port)\<close>, lines 116 to 128.  \<open>parseInt\<close> computes in double precision,
  which is exact on every value that passes the range test.
\<close>

datatype port_result = Valid int | Invalid string

definition validatePort :: "js_value \<Rightarrow> port_result" where
  "validatePort port =
     (case parseInt10 (js_toString port) of
        None \<Rightarrow> Invalid ''Port must be a number''
      | Some num \<Rightarrow>
          if num < 1 \<or> num > 65535 then Invalid ''Port must be between 1 and 65535''
          else Valid num)"

fun is_valid :: "port_result \<Rightarrow> bool" where
  "is_valid (Valid _) = True"
| "is_valid (Invalid _) = False"

section \<open>utils/edge-cases.js: retryWithBackoff\<close>

datatype js_exception = TypeError string | ReferenceError string | Error string

text \<open>
  The options argument is an object with Number-valued properties, kept as the list of
  its own properties; reading a property that is absent gives \<open>undefined\<close>.  Arithmetic
  and comparison on \<open>undefined\<close> give \<open>NaN\<close> and \<open>false\<close>.  Delays are exact integers
  (the source computes them in double precision).
\<close>

type_synonym js_options = "(string \<times> int) list"

definition js_prop :: "js_options \<Rightarrow> string \<Rightarrow> int option" where
  "js_prop obj k = map_of obj k"

definition js_lt :: "int option \<Rightarrow> int option \<Rightarrow> bool" where
  "js_lt a b = (case (a, b) of (Some x, Some y) \<Rightarrow> x < y | _ \<Rightarrow> False)"

definition js_minus :: "int option \<Rightarrow> int \<Rightarrow> int option" where
  "js_minus a y = (case a of None \<Rightarrow> None | Some x \<Rightarrow> Some (x - y))"

definition js_times_pow2 :: "int option \<Rightarrow> nat \<Rightarrow> int option" where
  "js_times_pow2 a i = (case a of None \<Rightarrow> None | Some x \<Rightarrow> Some (x * 2 ^ i))"

text \<open>
  The operation \<open>fn\<close> is modelled by the outcomes of its successive invocations:
  \<open>fn k\<close> is what invocation number \<open>k\<close> (counted from 0) does, either resolving with
  a value or rejecting with an \<open>Error\<close> that carries a message.
\<close>

datatype 'a attempt = Resolves 'a | Rejects string

datatype retry_event = Invoke nat | Sleep "int option"

datatype 'a retry_result = Returned 'a | Failure string | Throws js_exception

definition retry_defaults :: js_options where
  "retry_defaults = [(''maxRetries'', 3), (''initialDelay'', 100)]"

text \<open>The \<open>for\<close> loop of lines 328 to 339, then the \<open>return\<close> of line 341.\<close>

function retry_loop ::
  "(nat \<Rightarrow> 'a attempt) \<Rightarrow> js_options \<Rightarrow> nat \<Rightarrow> string option \<Rightarrow> retry_event list
     \<Rightarrow> 'a retry_result \<times> retry_event list" where
  "retry_loop fn finalOptions i lastError tr =
     (if js_lt (Some (int i)) (js_prop finalOptions ''maxRetries'') then
        (case fn i of
           Resolves v \<Rightarrow> (Returned v, tr @ [Invoke i])
         | Rejects m \<Rightarrow>
             retry_loop fn finalOptions (Suc i) (Some m)
               (tr @ [Invoke i] @
                 (if js_lt (Some (int i)) (js_minus (js_prop finalOptions ''maxRetries'') 1)
                  then [Sleep (js_times_pow2 (js_prop finalOptions ''initialDelay'') i)]
                  else [])))
      else
        (case lastError of
           None \<Rightarrow> (Throws (TypeError ''Cannot read properties of undefined''), tr)
         | Some m \<Rightarrow> (Failure m, tr)))"
  by pat_completeness auto
termination
  by (relation "measure (\<lambda>(fn, opts, i, lastError, tr).
        case js_prop opts ''maxRetries'' of None \<Rightarrow> 0 | Some n \<Rightarrow> nat (n - int i))")
     (auto simp: js_lt_def split: option.splits)

declare retry_loop.simps [simp del]

definition retryWithBackoff ::
  "(nat \<Rightarrow> 'a attempt) \<Rightarrow> js_options option \<Rightarrow> 'a retry_result \<times> retry_event list" where
  "retryWithBackoff fn options =
     retry_loop fn (case options of None \<Rightarrow> retry_defaults | Some opts \<Rightarrow> opts) 0 None []"

text \<open>
  The schedule the specification describes for \<open>k\<close> failed attempts: attempt \<open>j\<close> is
  followed by a pause of \<open>initialDelay * 2^j\<close>.
\<close>

definition backoff_schedule :: "int \<Rightarrow> nat \<Rightarrow> nat \<Rightarrow> retry_event list" where
  "backoff_schedule d i k = concat (map (\<lambda>j. [Invoke j, Sleep (Some (d * 2 ^ j))]) [i..<k])"

section \<open>config/store.js\<close>

text \<open>
  A server object, as \<open>addServer\<close> receives it, as the configuration file holds it and
  as \<open>getServer\<close> returns it: every property is optional (\<open>None\<close> is \<open>undefined\<close> or
  \<open>null\<close>), and \<open>other\<close> lists any further properties.  The port is whatever the prompt
  produced, a Number or a string.
\<close>

datatype port_value = PNum int | PStr string

record server_obj =
  host :: "string option"
  user :: "string option"
  port :: "port_value option"
  authType :: "string option"
  keyPath :: "string option"
  passphrase :: "string option"
  other :: "(string \<times> string) list"

text \<open>Truthiness of an optional string: \<open>undefined\<close>, \<open>null\<close> and \<open>""\<close> are falsy.\<close>

definition truthy :: "string option \<Rightarrow> bool" where
  "truthy v = (case v of None \<Rightarrow> False | Some s \<Rightarrow> s \<noteq> [])"

text \<open>
  The parsed configuration is an object keyed by alias, kept as the list of its own
  properties in enumeration order (the order of \<open>Object.entries\<close> and \<open>Object.keys\<close>):
  canonical array indices first, in ascending numeric order, then all other keys in
  order of creation.  Keys inherited from \<open>Object.prototype\<close> are not modelled: aliases
  range over ordinary property names.
\<close>

type_synonym config = "(string \<times> server_obj) list"

definition is_array_index :: "string \<Rightarrow> bool" where
  "is_array_index k =
     (k \<noteq> [] \<and> list_all is_digit k \<and> (k = ''0'' \<or> hd k \<noteq> CHR ''0'') \<and>
      digits_value k < 4294967295)"

definition index_before :: "string \<Rightarrow> string \<times> 'v \<Rightarrow> bool" where
  "index_before k p = (is_array_index (fst p) \<and> digits_value (fst p) < digits_value k)"

definition js_assign :: "(string \<times> 'v) list \<Rightarrow> string \<Rightarrow> 'v \<Rightarrow> (string \<times> 'v) list" where
  "js_assign obj k v =
     (if map_of obj k \<noteq> None then map (\<lambda>p. if fst p = k then (k, v) else p) obj
      else if is_array_index k then
        takeWhile (index_before k) obj @ [(k, v)] @ dropWhile (index_before k) obj
      else obj @ [(k, v)])"

definition js_delete :: "(string \<times> 'v) list \<Rightarrow> string \<Rightarrow> (string \<times> 'v) list" where
  "js_delete obj k = filter (\<lambda>p. fst p \<noteq> k) obj"

text \<open>
  The state the module works on: the configuration file (\<open>None\<close> when
  \<open>~/.fastssh/config.json\<close> does not exist) and the operating system's secret store
  behind \<open>keytar\<close>.  The file, when present, holds valid JSON, and file-system calls
  succeed.
\<close>

record store =
  config_file :: "config option"
  keychain :: "string \<times> string \<Rightarrow> string option"
  delete_missing_raises :: bool

definition service :: string where
  "service = ''fastssh''"

definition account :: "string \<Rightarrow> string" where
  "account name = name @ '':passphrase''"

text \<open>
  Modelled from the spec: the secret store adapter \<open>keytar\<close>, an external service the
  sources only call.  Entries are keyed by (service, account); \<open>getPassword\<close> answers
  \<open>null\<close> for an absent entry; \<open>setPassword\<close> stores an entry; \<open>deletePassword\<close> answers
  whether an entry was deleted.  Whether a backend raises instead, when asked to delete
  an absent entry, is left open by the flag \<open>delete_missing_raises\<close> of the state.
\<close>

definition keytar_getPassword :: "store \<Rightarrow> string \<Rightarrow> string \<Rightarrow> string option" where
  "keytar_getPassword st svc acct = keychain st (svc, acct)"

definition keytar_setPassword :: "store \<Rightarrow> string \<Rightarrow> string \<Rightarrow> string \<Rightarrow> store" where
  "keytar_setPassword st svc acct pw = st\<lparr>keychain := (keychain st)((svc, acct) \<mapsto> pw)\<rparr>"

definition keytar_deletePassword ::
  "store \<Rightarrow> string \<Rightarrow> string \<Rightarrow> js_exception + bool \<times> store" where
  "keytar_deletePassword st svc acct =
     (case keychain st (svc, acct) of
        None \<Rightarrow> if delete_missing_raises st then Inl (Error ''The specified item could not be found'')
                else Inr (False, st)
      | Some _ \<Rightarrow> Inr (True, st\<lparr>keychain := (keychain st)((svc, acct) := None)\<rparr>))"

definition loadConfig :: "store \<Rightarrow> config" where
  "loadConfig st = (case config_file st of None \<Rightarrow> [] | Some data \<Rightarrow> data)"

definition saveConfig :: "store \<Rightarrow> config \<Rightarrow> store" where
  "saveConfig st data = st\<lparr>config_file := Some data\<rparr>"

definition hasServer :: "store \<Rightarrow> string \<Rightarrow> bool" where
  "hasServer st name = (case map_of (loadConfig st) name of None \<Rightarrow> False | Some _ \<Rightarrow> True)"

definition findServerByHostUser :: "store \<Rightarrow> string \<Rightarrow> string \<Rightarrow> string option" where
  "findServerByHostUser st h u =
     map_option fst (find (\<lambda>p. host (snd p) = Some h \<and> user (snd p) = Some u) (loadConfig st))"

definition addServer :: "store \<Rightarrow> string \<Rightarrow> server_obj \<Rightarrow> store" where
  "addServer st name obj =
     (let cfg = loadConfig st;
          entry = \<lparr>host = host obj, user = user obj, port = None, authType = Some ''key'',
                   keyPath = None, passphrase = None, other = []\<rparr>;
          entry' = (if truthy (keyPath obj) then entry\<lparr>keyPath := keyPath obj\<rparr> else entry);
          cfg' = js_assign cfg name entry';
          st' = (case passphrase obj of
                   None \<Rightarrow> st
                 | Some pw \<Rightarrow> if pw \<noteq> [] then keytar_setPassword st service (account name) pw
                             else st)
      in saveConfig st' cfg')"

definition getServer :: "store \<Rightarrow> string \<Rightarrow> server_obj option" where
  "getServer st name =
     (case map_of (loadConfig st) name of
        None \<Rightarrow> None
      | Some cfg \<Rightarrow>
          Some (if authType cfg = Some ''key''
                then cfg\<lparr>passphrase := keytar_getPassword st service (account name)\<rparr>
                else cfg))"

definition removeServer :: "store \<Rightarrow> string \<Rightarrow> js_exception + store" where
  "removeServer st name =
     (let cfg = js_delete (loadConfig st) name;
          st' = saveConfig st cfg
      in case keytar_deletePassword st' service (account name) of
           Inl e \<Rightarrow> Inr st'
         | Inr (deleted, st'') \<Rightarrow> Inr st'')"

definition listServers :: "store \<Rightarrow> string list" where
  "listServers st = map fst (loadConfig st)"

section \<open>utils/logger.js and commands/connect.js\<close>

datatype log_line = LogInfo string | LogSuccess string | LogError string | LogWarn string

definition bullet :: string where
  "bullet = [CHR 0xE2, CHR 0x80, CHR 0xA2]"

definition show_undefined :: "string option \<Rightarrow> string" where
  "show_undefined v = (case v of None \<Rightarrow> ''undefined'' | Some s \<Rightarrow> s)"

text \<open>\<open>cfg.port || 22\<close> and its rendering in a template string.\<close>

definition port_or_22 :: "port_value option \<Rightarrow> port_value" where
  "port_or_22 p =
     (case p of
        None \<Rightarrow> PNum 22
      | Some (PNum n) \<Rightarrow> if n = 0 then PNum 22 else PNum n
      | Some (PStr s) \<Rightarrow> if s = [] then PNum 22 else PStr s)"

fun port_toString :: "port_value \<Rightarrow> string" where
  "port_toString (PNum n) = number_toString n"
| "port_toString (PStr s) = s"

text \<open>
  \<open>handleConnectionError(err, name, authType)\<close>, lines 121 to 148: the lines it prints
  before \<open>process.exit(1)\<close>.  The first argument is \<open>err.message\<close> (\<open>None\<close> when the error
  has none).
\<close>

definition handleConnectionError :: "string option \<Rightarrow> string \<Rightarrow> string option \<Rightarrow> log_line list" where
  "handleConnectionError message name authType' =
     (let errorMsg = toLowerCase (case message of None \<Rightarrow> [] | Some m \<Rightarrow> m) in
      [LogError (CHR 0x0A # ''Connection failed!'')] @
      (if js_includes errorMsg ''enotfound'' \<or> js_includes errorMsg ''getaddrinfo'' then
         [LogError ''  Cannot resolve hostname. Check network and host.'']
       else if js_includes errorMsg ''econnrefused'' then
         [LogError ''  Connection refused. Check SSH is running on that port.'']
       else if js_includes errorMsg ''etimedout'' \<or> js_includes errorMsg ''timeout'' then
         [LogError ''  Connection timed out. Check network.'']
       else if js_includes errorMsg ''authentication'' \<or> js_includes errorMsg ''permission denied''
       then
         [LogError ''  Authentication failed.''] @
         (if authType' = Some ''key'' then
            [LogInfo (CHR 0x0A # ''For SSH key authentication:''),
             LogInfo (''   '' @ bullet @
               '' Verify the private key on THIS machine matches server's public key''),
             LogInfo (''   '' @ bullet @
               '' Ensure server has PubkeyAuthentication enabled in SSH config''),
             LogInfo (''   '' @ bullet @
               '' Check that your public key is in ~/.ssh/authorized_keys on server''),
             LogInfo (''   '' @ bullet @
               '' Run: ssh-keygen -l -f ~/.ssh/id_rsa to see key fingerprint''),
             LogInfo (CHR 0x0A # ''   Try re-setup: fastssh init '' @ name)]
          else [])
       else [LogError (''  '' @ show_undefined message)]))"

text \<open>
  What \<open>connect\<close> meets outside the store: the home directory, whether the private key
  file exists, what reading it gives (\<open>Inl\<close> the message of the error raised), and whether
  \<open>ssh.connect\<close> and \<open>ssh.requestShell\<close> reject (\<open>Some\<close> the message of the error).
  A run ends in \<open>process.exit\<close>, in an exception that nothing catches, or with the
  interactive session handed over to the terminal.
\<close>

record connect_env =
  homedir :: string
  key_exists :: bool
  key_read :: "string + string"
  ssh_connect :: "string option"
  request_shell :: "string option"

datatype outcome = Exit int | Uncaught js_exception | Interactive

text \<open>
  \<open>connect(name)\<close>, lines 53 to 119, with the lines it prints.  Of the output of
  \<open>validateServerConfig\<close> and \<open>validatePrivateKeyExists\<close> only the error lines are kept.

  The \<open>catch\<close> clause of line 116 calls \<open>handleConnectionError(err, name, authType)\<close>.
  No scope declares \<open>authType\<close>: the function has \<open>name\<close>, \<open>cfg\<close>, \<open>ssh\<close> and \<open>err\<close>, the
  module has its imports (\<open>NodeSSH\<close>, \<open>getServer\<close>, \<open>log\<close>, \<open>fs\<close>, \<open>os\<close>) and its five
  functions.  Evaluating the argument list therefore raises a \<open>ReferenceError\<close> before
  \<open>handleConnectionError\<close> is entered, and the promise \<open>connect\<close> returns is rejected
  with it.
\<close>

definition connect :: "connect_env \<Rightarrow> store \<Rightarrow> string option \<Rightarrow> outcome \<times> log_line list" where
  "connect env st name =
     (if \<not> truthy name then
        (Exit 1, [LogError ''Provide server name. Usage: fastssh <server-name>''])
      else
        (case getServer st (show_undefined name) of
           None \<Rightarrow>
             (Exit 1, [LogError (''Server '' @ [CHR 0x27] @ show_undefined name @ [CHR 0x27] @
                         '' not found.'')])
         | Some cfg \<Rightarrow>
             (case keyPath cfg of
                None \<Rightarrow> (Uncaught (TypeError ''Cannot read properties of undefined''), [])
              | Some kp \<Rightarrow>
                  if \<not> key_exists env then
                    (Exit 1,
                     [LogError (CHR 0x0A # ''SSH private key not found on this machine!''),
                      LogError (''   Expected at: '' @ expand_home (homedir env) kp)])
                  else
                    (let connecting =
                       [LogInfo (''Connecting to '' @ show_undefined (user cfg) @ ''@'' @
                          show_undefined (host cfg) @ '':'' @
                          port_toString (port_or_22 (port cfg)) @ ''...'')]
                     in case key_read env of
                          Inl m \<Rightarrow>
                            (Exit 1, connecting @ [LogError (''Failed to read private key: '' @ m)])
                        | Inr keyContent \<Rightarrow>
                            (case ssh_connect env of
                               Some m \<Rightarrow>
                                 (Uncaught (ReferenceError ''authType is not defined''), connecting)
                             | None \<Rightarrow>
                                 (case request_shell env of
                                    Some m \<Rightarrow>
                                      (Uncaught (ReferenceError ''authType is not defined''),
                                       connecting @
                                       [LogSuccess (''Connected! Starting interactive session...'' @
                                          [CHR 0x0A])])
                                  | None \<Rightarrow>
                                      (Interactive,
                                       connecting @
                                       [LogSuccess (''Connected! Starting interactive session...'' @
                                          [CHR 0x0A])])))))))"

section \<open>commands/init.js\<close>

text \<open>
  The remote shell is an external collaborator.  A session has a state of some type
  \<open>'s\<close>; \<open>execCommand\<close> is a function that, from the state and the command line, gives
  the next state and either the message of the error it rejects with (\<open>Inl\<close>) or the
  result of the command.  \<open>code\<close> is \<open>None\<close> when the exit code is \<open>null\<close>.
\<close>

record exec_result =
  code :: "int option"
  stdout :: string
  stderr :: string

type_synonym 's remote = "'s \<Rightarrow> string \<Rightarrow> 's \<times> (string + exec_result)"

text \<open>
  What a run does, in order: lines printed, prompts shown, the store calls
  \<open>removeServer\<close> and \<open>addServer\<close>, the test for the local key file, the key generation,
  sessions opened (with a password or with the private key; \<open>None\<close> when the session
  opens, \<open>Some m\<close> when the attempt is rejected with an error of message \<open>m\<close>), remote
  commands with what the session answered, sessions closed.
\<close>

datatype credential = WithPassword | WithPrivateKey

datatype event =
    Log log_line
  | Prompt string
  | StoreRemove string
  | StoreAdd string
  | KeyFileTest
  | KeyGen
  | SshConnect credential "string option"
  | Exec string "string + exec_result"
  | Dispose

text \<open>
  A scripted session, to exhibit runs: its state counts the commands received, and
  command number \<open>n\<close> is answered with entry \<open>n\<close> of the script; past the end of the
  script the session rejects.
\<close>

definition scripted :: "exec_result list \<Rightarrow> nat remote" where
  "scripted script n cmd =
     (Suc n, if n < length script then Inr (script ! n) else Inl ''Not connected to server'')"

record 's world =
  cfg_store :: store
  ssh :: 's
  trace :: "event list"

definition say :: "log_line \<Rightarrow> 's world \<Rightarrow> 's world" where
  "say l w = w\<lparr>trace := trace w @ [Log l]\<rparr>"

definition emit :: "event \<Rightarrow> 's world \<Rightarrow> 's world" where
  "emit e w = w\<lparr>trace := trace w @ [e]\<rparr>"

definition execCommand :: "'s remote \<Rightarrow> 's world \<Rightarrow> string \<Rightarrow> 's world \<times> (string + exec_result)" where
  "execCommand remote w cmd =
     (case remote (ssh w) cmd of
        (s', r) \<Rightarrow> (w\<lparr>ssh := s', trace := trace w @ [Exec cmd r]\<rparr>, r))"

text \<open>The remote commands of a trace, in the order they were run.\<close>

fun commands :: "event list \<Rightarrow> string list" where
  "commands [] = []"
| "commands (Exec cmd r # es) = cmd # commands es"
| "commands (e # es) = commands es"

text \<open>The remote commands of a trace, each with what the session answered.\<close>

fun exchanges :: "event list \<Rightarrow> (string \<times> (string + exec_result)) list" where
  "exchanges [] = []"
| "exchanges (Exec cmd r # es) = (cmd, r) # exchanges es"
| "exchanges (e # es) = exchanges es"

text \<open>How the attempts to open a session with the private key went, in order.\<close>

fun key_sessions :: "event list \<Rightarrow> string option list" where
  "key_sessions [] = []"
| "key_sessions (SshConnect WithPrivateKey r # es) = r # key_sessions es"
| "key_sessions (e # es) = key_sessions es"

text \<open>The aliases a trace adds to the store, in order.\<close>

fun store_adds :: "event list \<Rightarrow> string list" where
  "store_adds [] = []"
| "store_adds (StoreAdd name # es) = name # store_adds es"
| "store_adds (e # es) = store_adds es"

text \<open>The test \<open>result.code === 0 || result.code === null\<close>.\<close>

definition exited_ok :: "exec_result \<Rightarrow> bool" where
  "exited_ok r = (code r = Some 0 \<or> code r = None)"

definition mkdir_command :: string where
  "mkdir_command = ''mkdir -p ~/.ssh && chmod 700 ~/.ssh''"

definition chmod_command :: string where
  "chmod_command = ''chmod 600 ~/.ssh/authorized_keys''"

definition direct_command :: "string \<Rightarrow> string" where
  "direct_command keyLine =
     ''echo '' @ [CHR 0x27] @ escape_quotes keyLine @ [CHR 0x27] @ '' >> ~/.ssh/authorized_keys''"

definition config_test_command :: string where
  "config_test_command =
     ''touch ~/.fastssh_test && rm ~/.fastssh_test && echo '' @ [CHR 0x27] @ ''OK'' @ [CHR 0x27]"

definition base64_command :: "string \<Rightarrow> string" where
  "base64_command keyLine =
     ''echo '' @ [CHR 0x27] @ base64 (keyLine @ [CHR 0x0A]) @ [CHR 0x27] @
     '' | base64 -d >> ~/.ssh/authorized_keys''"

text \<open>
  A method returns \<open>true\<close> or the object \<open>{success: false, stderr}\<close>; \<open>Inl\<close> is the message
  of an error that \<open>execCommand\<close> rejected with, which the method lets through.
\<close>

datatype method_result = MethodTrue | MethodFailed string

definition tryDirectAppendMethod ::
  "'s remote \<Rightarrow> 's world \<Rightarrow> string \<Rightarrow> 's world \<times> (string + method_result)" where
  "tryDirectAppendMethod remote w keyLine =
     (case execCommand remote
             (say (LogInfo ''   Attempting Method 1: Direct append with escaping...'') w)
             (direct_command keyLine) of
        (w1, Inl e) \<Rightarrow> (w1, Inl e)
      | (w1, Inr addResult1) \<Rightarrow>
          if exited_ok addResult1 then
            (case execCommand remote (say (LogSuccess ''Public key installed successfully'') w1)
                    chmod_command of
               (w2, Inl e) \<Rightarrow> (w2, Inl e)
             | (w2, Inr r) \<Rightarrow> (w2, Inr MethodTrue))
          else (w1, Inr (MethodFailed (stderr addResult1))))"

definition tryBase64Method ::
  "'s remote \<Rightarrow> 's world \<Rightarrow> string \<Rightarrow> 's world \<times> (string + method_result)" where
  "tryBase64Method remote w keyLine =
     (case execCommand remote
             (say (LogWarn ''Method 1 failed, trying Method 2: Base64 encoding...'') w)
             (base64_command keyLine) of
        (w1, Inl e) \<Rightarrow> (w1, Inl e)
      | (w1, Inr addResult2) \<Rightarrow>
          if exited_ok addResult2 then
            (case execCommand remote
                    (say (LogSuccess ''Public key installed successfully (base64 method)'') w1)
                    chmod_command of
               (w2, Inl e) \<Rightarrow> (w2, Inl e)
             | (w2, Inr r) \<Rightarrow> (w2, Inr MethodTrue))
          else (w1, Inr (MethodFailed (stderr addResult2))))"

text \<open>The \<open>catch\<close> clause of \<open>addPublicKeyToRemote\<close>, lines 114 to 117.\<close>

definition install_caught :: "'s world \<Rightarrow> string \<Rightarrow> 's world \<times> bool" where
  "install_caught w e = (say (LogError (''Error adding public key to remote: '' @ e)) w, False)"

definition addPublicKeyToRemote :: "'s remote \<Rightarrow> 's world \<Rightarrow> string \<Rightarrow> 's world \<times> bool" where
  "addPublicKeyToRemote remote w pubKeyContent =
     (case execCommand remote
             (say (LogInfo (CHR 0x0A # '' Adding public key to remote server...'')) w)
             mkdir_command of
        (w1, Inl e) \<Rightarrow> install_caught w1 e
      | (w1, Inr mkdirResult) \<Rightarrow>
          (let w2 = (if \<not> exited_ok mkdirResult
                     then say (LogWarn (''mkdir result: '' @ stderr mkdirResult)) w1 else w1);
               keyLine = trim pubKeyContent
           in case tryDirectAppendMethod remote w2 keyLine of
                (w3, Inl e) \<Rightarrow> install_caught w3 e
              | (w3, Inr MethodTrue) \<Rightarrow> (w3, True)
              | (w3, Inr (MethodFailed stderr1)) \<Rightarrow>
                  (case tryBase64Method remote w3 keyLine of
                     (w4, Inl e) \<Rightarrow> install_caught w4 e
                   | (w4, Inr MethodTrue) \<Rightarrow> (w4, True)
                   | (w4, Inr (MethodFailed stderr2)) \<Rightarrow>
                       (say (LogError (''Method 2 stderr: '' @ stderr2))
                          (say (LogError (''Method 1 stderr: '' @ stderr1))
                             (say (LogError ''Both methods failed'') w4)),
                        False))))"

text \<open>
  What a run of \<open>init\<close> meets: the answers to its prompts, the local key files, the
  key generator, and the two sessions.  For the key generation and the two
  connections, \<open>None\<close> means the step went through and \<open>Some m\<close> that it raised an error
  with message \<open>m\<close>.  Reading a key file gives \<open>Inl m\<close> when the read raised an error
  with message \<open>m\<close>; for the public key, \<open>Inr None\<close> says that the file does not exist.
\<close>

record 's init_env =
  replace_answer :: bool
  host_answer :: string
  user_answer :: string
  port_answer :: port_value
  password_answer :: string
  private_key_present :: bool
  keygen_error :: "string option"
  password_connect :: "string option"
  public_key_read :: "string + string option"
  remote_exec :: "'s remote"
  private_key_read :: "string + string"
  key_connect :: "string option"

text \<open>
  How a run ends: it returns (after \<open>Canceled.\<close>, or after a complete setup), it
  leaves through one of the \<open>process.exit(1)\<close> calls, named here after the call site, or
  an exception escapes it.
\<close>

datatype abort =
    KeygenFailed
  | HostUserConflict string
  | SetupFailed string
  | PublicKeyUnreadable
  | InstallFailed
  | PrivateKeyUnreadable
  | VerificationFailed

datatype init_outcome = Canceled | Done | Aborted abort | Raised js_exception

fun exit_status :: "init_outcome \<Rightarrow> int" where
  "exit_status Canceled = 0"
| "exit_status Done = 0"
| "exit_status (Aborted a) = 1"
| "exit_status (Raised e) = 1"

text \<open>
  Of the output of \<open>init\<close> itself and of its helpers other than the installer, the error
  and warning lines are kept.
\<close>

definition removeServer_step :: "string \<Rightarrow> 's world \<Rightarrow> js_exception + 's world" where
  "removeServer_step name w =
     (case removeServer (cfg_store w) name of
        Inl e \<Rightarrow> Inl e
      | Inr st' \<Rightarrow> Inr (emit (StoreRemove name) (w\<lparr>cfg_store := st'\<rparr>)))"

definition addServer_step :: "string \<Rightarrow> server_obj \<Rightarrow> 's world \<Rightarrow> 's world" where
  "addServer_step name obj w =
     emit (StoreAdd name) (w\<lparr>cfg_store := addServer (cfg_store w) name obj\<rparr>)"

text \<open>
  Lines 214 to 218 with \<open>generateSSHKey\<close>: the flag is false when the key file is absent
  and could not be generated.
\<close>

definition ensure_key :: "'s init_env \<Rightarrow> 's world \<Rightarrow> 's world \<times> bool" where
  "ensure_key env w =
     (let w1 = emit KeyFileTest w in
      if private_key_present env then (w1, True)
      else
        (case keygen_error env of
           None \<Rightarrow> (emit KeyGen w1, True)
         | Some m \<Rightarrow>
             (say (LogError ('' Failed to generate SSH key: '' @ m)) (emit KeyGen w1), False)))"

text \<open>
  \<open>testSSHKeyAuthentication\<close>, lines 120 to 166: \<open>None\<close> when it returns, otherwise the
  exit it takes.
\<close>

definition testSSHKeyAuthentication :: "'s init_env \<Rightarrow> 's world \<Rightarrow> 's world \<times> abort option" where
  "testSSHKeyAuthentication env w =
     (case private_key_read env of
        Inl m \<Rightarrow> (say (LogError (''Failed to read private key: '' @ m)) w, Some PrivateKeyUnreadable)
      | Inr privateKeyContent \<Rightarrow>
          (case key_connect env of
             None \<Rightarrow> (emit Dispose (emit (SshConnect WithPrivateKey None) w), None)
           | Some m \<Rightarrow>
               (say (LogError (''   Error: '' @ m))
                  (say (LogError ''SSH key authentication failed'')
                     (emit (SshConnect WithPrivateKey (Some m)) w)),
                Some VerificationFailed)))"

text \<open>\<open>getPublicKeyContent\<close>, lines 32 to 46: the content, or \<open>null\<close>.\<close>

definition getPublicKeyContent :: "'s init_env \<Rightarrow> 's world \<Rightarrow> 's world \<times> string option" where
  "getPublicKeyContent env w =
     (case public_key_read env of
        Inl m \<Rightarrow> (say (LogError ('' Failed to read public key: '' @ m)) w, None)
      | Inr content \<Rightarrow> (w, content))"

text \<open>The \<open>catch\<close> clause of \<open>init\<close>, lines 290 to 300.\<close>

definition setup_caught :: "'s world \<Rightarrow> string \<Rightarrow> init_outcome \<times> 's world" where
  "setup_caught w e =
     (Aborted (SetupFailed e),
      say (LogError (''Error: '' @ e))
        (say (LogError ''Setup failed. Authentication with the server failed.'') w))"

text \<open>The \<open>try\<close> block of \<open>init\<close>, lines 251 to 289.\<close>

definition provision :: "string \<Rightarrow> 's init_env \<Rightarrow> 's world \<Rightarrow> init_outcome \<times> 's world" where
  "provision name env w =
     (let w1 = emit (SshConnect WithPassword (password_connect env)) w in
      case password_connect env of
        Some m \<Rightarrow> setup_caught w1 m
      | None \<Rightarrow>
          (case getPublicKeyContent env w1 of
             (w2, pubKeyContent) \<Rightarrow>
               if \<not> truthy pubKeyContent then
                 (Aborted PublicKeyUnreadable,
                  emit Dispose (say (LogError ''Could not read public key'') w2))
               else
                 (case addPublicKeyToRemote (remote_exec env) w2 (show_undefined pubKeyContent) of
                    (w3, installed) \<Rightarrow>
                      if \<not> installed then
                        (Aborted InstallFailed,
                         emit Dispose
                           (say (LogError ''Failed to install public key on server'') w3))
                      else
                        (case execCommand (remote_exec env) w3 config_test_command of
                           (w4, Inl m) \<Rightarrow>
                             setup_caught
                               (say (LogWarn (''Could not verify SSH config: '' @ m)) w4) m
                         | (w4, Inr permResult) \<Rightarrow>
                             (case testSSHKeyAuthentication env (emit Dispose w4) of
                                (w5, Some a) \<Rightarrow> (Aborted a, w5)
                              | (w5, None) \<Rightarrow>
                                  (Done,
                                   addServer_step name
                                     \<lparr>host = Some (host_answer env),
                                        user = Some (user_answer env),
                                        port = Some (port_or_22 (Some (port_answer env))),
                                        authType = Some ''key'',
                                        keyPath = Some ''~/.ssh/id_rsa'',
                                        passphrase = None, other = []\<rparr>
                                     w5))))))"

text \<open>Lines 191 to 301 of \<open>init\<close>: what follows the question about an existing alias.\<close>

definition init_setup :: "string \<Rightarrow> 's init_env \<Rightarrow> 's world \<Rightarrow> init_outcome \<times> 's world" where
  "init_setup name env w =
     (case ensure_key env (emit (Prompt ''host, user, port'') w) of
        (w1, generated) \<Rightarrow>
          if \<not> generated then
            (Aborted KeygenFailed, say (LogError ''Failed to generate SSH key.'') w1)
          else
            (let existingServer =
                   findServerByHostUser (cfg_store w1) (host_answer env) (user_answer env)
             in if truthy existingServer then
                  (Aborted (HostUserConflict (show_undefined existingServer)),
                   say (LogError ('' This IP and user combination already exist as '' @
                          [CHR 0x27] @ show_undefined existingServer @ [CHR 0x27])) w1)
                else provision name env (emit (Prompt ''password'') w1)))"

text \<open>\<open>init(name)\<close>, lines 172 to 189, then the rest.\<close>

definition init :: "string \<Rightarrow> 's init_env \<Rightarrow> 's world \<Rightarrow> init_outcome \<times> 's world" where
  "init name env w =
     (if hasServer (cfg_store w) name then
        (let w1 = emit (Prompt ''replace'') w in
         if \<not> replace_answer env then (Canceled, w1)
         else
           (case removeServer_step name w1 of
              Inl e \<Rightarrow> (Raised e, w1)
            | Inr w2 \<Rightarrow> init_setup name env w2))
      else init_setup name env w)"

section \<open>Properties of validatePort\<close>

lemma of_char_digit: "n < 10 \<Longrightarrow> (of_char (char_of (48 + n :: nat)) :: nat) = 48 + n"
  by simp

lemma is_digit_char_of: "n < 10 \<Longrightarrow> is_digit (char_of (48 + n :: nat))"
  by (simp add: is_digit_def)

lemma digit_val_char_of: "n < 10 \<Longrightarrow> digit_val (char_of (48 + n :: nat)) = int n"
  by (simp add: digit_val_def)

lemma digits_value_snoc: "digits_value (ds @ [c]) = 10 * digits_value ds + digit_val c"
  by (simp add: digits_value_def)

lemma digits_of_all_digits: "list_all is_digit (digits_of n)"
proof (induction n rule: digits_of.induct)
  case (1 n)
  show ?case
  proof (cases "n < 10")
    case True
    then show ?thesis by (subst digits_of.simps) (simp add: is_digit_char_of)
  next
    case False
    with 1 have "list_all is_digit (digits_of (n div 10))" by simp
    moreover have "is_digit (char_of (48 + n mod 10))" by (rule is_digit_char_of) simp
    ultimately show ?thesis using False by (subst digits_of.simps) simp
  qed
qed

lemma digits_of_nonempty: "digits_of n \<noteq> []"
  by (subst digits_of.simps) simp

lemma digits_value_digits_of: "digits_value (digits_of n) = int n"
proof (induction n rule: digits_of.induct)
  case (1 n)
  show ?case
  proof (cases "n < 10")
    case True
    then show ?thesis by (subst digits_of.simps) (simp add: digits_value_def digit_val_char_of)
  next
    case False
    with 1 have ih: "digits_value (digits_of (n div 10)) = int (n div 10)" by simp
    have d: "digit_val (char_of (48 + n mod 10)) = int (n mod 10)"
      by (rule digit_val_char_of) simp
    have "digits_value (digits_of n) = 10 * int (n div 10) + int (n mod 10)"
      using False ih d by (subst digits_of.simps) (simp add: digits_value_snoc)
    then show ?thesis by (simp add: zdiv_int zmod_int)
  qed
qed

lemma digit_not_space: "is_digit c \<Longrightarrow> \<not> is_js_whitespace c"
  by (auto simp: is_digit_def is_js_whitespace_def)

lemma digit_not_sign: "is_digit c \<Longrightarrow> c \<noteq> CHR ''-'' \<and> c \<noteq> CHR ''+''"
  by (auto simp: is_digit_def)

lemma takeWhile_digits: "list_all is_digit ds \<Longrightarrow> (case rest of [] \<Rightarrow> True | c # _ \<Rightarrow> \<not> is_digit c)
   \<Longrightarrow> takeWhile is_digit (ds @ rest) = ds"
  by (induction ds) (auto split: list.splits)

lemma parseInt10_digits:
  assumes "ds \<noteq> []" "list_all is_digit ds" "case rest of [] \<Rightarrow> True | c # _ \<Rightarrow> \<not> is_digit c"
  shows "parseInt10 (ds @ rest) = Some (digits_value ds)"
proof -
  obtain d ds' where ds: "ds = d # ds'" using assms(1) by (cases ds) auto
  have dd: "is_digit d" using assms(2) ds by simp
  have tw: "takeWhile is_digit (ds @ rest) = ds" using takeWhile_digits[OF assms(2,3)] .
  show ?thesis
    using dd digit_not_space[OF dd] digit_not_sign[OF dd] tw assms(1)
    unfolding parseInt10_def ds by (simp add: Let_def)
qed

lemma parseInt10_neg_digits:
  assumes "ds \<noteq> []" "list_all is_digit ds"
    and "case rest of [] \<Rightarrow> True | c # _ \<Rightarrow> \<not> is_digit c"
  shows "parseInt10 (CHR ''-'' # ds @ rest) = Some (- digits_value ds)"
proof -
  have tw: "takeWhile is_digit (ds @ rest) = ds" using takeWhile_digits[OF assms(2,3)] .
  show ?thesis using assms(1)
    unfolding parseInt10_def by (simp add: Let_def is_js_whitespace_def tw)
qed

lemma parseInt10_number_toString:
  assumes "\<bar>p\<bar> < 1000000000000000000000"
  shows "parseInt10 (number_toString p) = Some p"
proof (cases "p < 0")
  case True
  then show ?thesis
    using assms
      parseInt10_neg_digits[OF digits_of_nonempty digits_of_all_digits, of "[]" "nat (- p)"]
    by (simp add: number_toString_def digits_value_digits_of)
next
  case False
  then show ?thesis
    using assms parseInt10_digits[OF digits_of_nonempty digits_of_all_digits, of "[]" "nat p"]
    by (simp add: number_toString_def digits_value_digits_of)
qed

text \<open>
  Claim C7, for the safe integers.  For a Number holding a safe integer \<open>p\<close>,
  \<open>validatePort p\<close> succeeds exactly when \<open>1 \<le> p \<le> 65535\<close>, and then returns \<open>p\<close> itself in
  the \<open>port\<close> field; every other one is rejected with the range message.  The boundary
  cases 0, 1, 65535 and 65536 are the instances below.
\<close>

theorem validatePort_range:
  "is_safe_integer p \<Longrightarrow>
   validatePort (JNum p) =
     (if 1 \<le> p \<and> p \<le> 65535 then Valid p else Invalid ''Port must be between 1 and 65535'')"
proof -
  assume "is_safe_integer p"
  then have "\<bar>p\<bar> < 1000000000000000000000" by (simp add: is_safe_integer_def)
  then show ?thesis by (auto simp: validatePort_def parseInt10_number_toString)
qed

theorem validatePort_range_witness:
  "is_safe_integer 0 \<and> is_safe_integer 1 \<and> is_safe_integer 65535 \<and> is_safe_integer 65536 \<and>
   \<not> is_valid (validatePort (JNum 0)) \<and> \<not> is_valid (validatePort (JNum 65536)) \<and>
   validatePort (JNum 1) = Valid 1 \<and> validatePort (JNum 65535) = Valid 65535"
proof -
  have s: "is_safe_integer 0" "is_safe_integer 1" "is_safe_integer 65535" "is_safe_integer 65536"
    by (simp_all add: is_safe_integer_def)
  show ?thesis
    using s validatePort_range[OF s(1)] validatePort_range[OF s(2)]
      validatePort_range[OF s(3)] validatePort_range[OF s(4)]
    by simp
qed

text \<open>
  Read for every integer, the claim fails.  A Number holding an integer is not always
  printed in decimal: \<open>1e21\<close> is the integer \<open>10^21\<close>, \<open>String(1e21)\<close> is \<open>"1e+21"\<close>,
  \<open>parseInt\<close> reads the leading \<open>1\<close>, and the port is accepted, as port 1, although
  \<open>10^21\<close> is far above 65535.
\<close>

lemma char_of_digits:
  "char_of (48 :: nat) = CHR ''0''" "char_of (49 :: nat) = CHR ''1''"
  "char_of (50 :: nat) = CHR ''2''"
  by code_simp+

lemma digits_of_1e21: "digits_of 1000000000000000000000 = ''1000000000000000000000''"
  by (simp add: digits_of.simps char_of_digits)

lemma exponent_form_1e21: "exponent_form 1000000000000000000000 = ''1e+21''"
  by (simp add: exponent_form_def digits_of_1e21 digits_of.simps char_of_digits)

theorem validatePort_range_counterexample:
  "validatePort (JNum 1000000000000000000000) = Valid 1"
  by (simp add: validatePort_def number_toString_def exponent_form_1e21 parseInt10_def
      is_js_whitespace_def is_digit_def digits_value_def digit_val_def)

text \<open>
  Claim C10.  The argument goes through \<open>Number.parseInt\<close>, which reads the leading run of
  digits and ignores what follows: a string made of digits \<open>ds\<close> denoting a port in range,
  followed by any text that does not start with a digit, is accepted, and the \<open>port\<close> field
  of the answer is the value of \<open>ds\<close>.  So \<open>"22abc"\<close> gives port 22 and \<open>"8.5"\<close> gives
  port 8.
\<close>

theorem validatePort_lenient:
  assumes "ds \<noteq> []" and "list_all is_digit ds"
    and "case rest of [] \<Rightarrow> True | c # _ \<Rightarrow> \<not> is_digit c"
    and "1 \<le> digits_value ds" and "digits_value ds \<le> 65535"
  shows "validatePort (JStr (ds @ rest)) = Valid (digits_value ds)"
  using assms by (simp add: validatePort_def parseInt10_digits)

theorem validatePort_lenient_witness:
  "validatePort (JStr ''22abc'') = Valid 22 \<and> validatePort (JStr ''8.5'') = Valid 8"
proof -
  have a: "validatePort (JStr (''22'' @ ''abc'')) = Valid (digits_value ''22'')"
    by (rule validatePort_lenient) (simp_all add: is_digit_def digits_value_def digit_val_def)
  have b: "validatePort (JStr (''8'' @ ''.5'')) = Valid (digits_value ''8'')"
    by (rule validatePort_lenient) (simp_all add: is_digit_def digits_value_def digit_val_def)
  show ?thesis using a b by (simp add: digits_value_def digit_val_def)
qed

section \<open>Properties of retryWithBackoff\<close>

lemma backoff_schedule_step:
  "i < k \<Longrightarrow> backoff_schedule d i k = [Invoke i, Sleep (Some (d * 2 ^ i))] @ backoff_schedule d (Suc i) k"
  by (simp add: backoff_schedule_def upt_conv_Cons)

lemma backoff_schedule_empty: "backoff_schedule d i i = []"
  by (simp add: backoff_schedule_def)

lemma retry_loop_success:
  assumes mr: "js_prop opts ''maxRetries'' = Some n"
    and dl: "js_prop opts ''initialDelay'' = Some d"
    and ok: "fn k = Resolves v" and kn: "int k < n"
  shows "i \<le> k \<Longrightarrow> (\<forall>j. i \<le> j \<and> j < k \<longrightarrow> fn j = Rejects (msg j)) \<Longrightarrow>
         retry_loop fn opts i le tr = (Returned v, tr @ backoff_schedule d i k @ [Invoke k])"
proof (induction "k - i" arbitrary: i le tr)
  case 0
  then have "i = k" by simp
  then show ?case using ok kn mr
    by (subst retry_loop.simps) (simp add: js_lt_def backoff_schedule_empty)
next
  case (Suc m)
  then have ik: "i < k" by simp
  then have rej: "fn i = Rejects (msg i)" using Suc.prems by simp
  have lt: "int i < n" "int i < n - 1" using ik kn by simp_all
  have ih: "retry_loop fn opts (Suc i) (Some (msg i)) (tr @ [Invoke i, Sleep (Some (d * 2 ^ i))])
     = (Returned v, (tr @ [Invoke i, Sleep (Some (d * 2 ^ i))]) @ backoff_schedule d (Suc i) k @ [Invoke k])"
    using Suc.hyps(1)[of "Suc i"] Suc.hyps(2) Suc.prems ik by simp
  show ?case
    using rej lt mr dl ih
    by (subst retry_loop.simps)
       (simp add: js_lt_def js_minus_def js_times_pow2_def backoff_schedule_step[OF ik])
qed

lemma retry_loop_exhausted:
  assumes mr: "js_prop opts ''maxRetries'' = Some (int n)"
    and dl: "js_prop opts ''initialDelay'' = Some d"
    and rej: "\<forall>j<n. fn j = Rejects (msg j)"
  shows "i < n \<Longrightarrow>
         retry_loop fn opts i le tr =
           (Failure (msg (n - 1)), tr @ backoff_schedule d i (n - 1) @ [Invoke (n - 1)])"
proof (induction "n - i" arbitrary: i le tr)
  case 0
  then show ?case by simp
next
  case (Suc m)
  have ri: "fn i = Rejects (msg i)" using rej Suc.prems by simp
  show ?case
  proof (cases "Suc i < n")
    case True
    then have ik: "i < n - Suc 0" by simp
    have ih: "retry_loop fn opts (Suc i) (Some (msg i)) (tr @ [Invoke i, Sleep (Some (d * 2 ^ i))])
      = (Failure (msg (n - 1)),
         (tr @ [Invoke i, Sleep (Some (d * 2 ^ i))]) @ backoff_schedule d (Suc i) (n - 1) @ [Invoke (n - 1)])"
      using Suc.hyps(1)[of "Suc i"] Suc.hyps(2) True by simp
    show ?thesis
      using ri mr dl ih True Suc.prems
      by (subst retry_loop.simps)
         (simp add: js_lt_def js_minus_def js_times_pow2_def backoff_schedule_step[OF ik])
  next
    case False
    then have e: "i = n - 1" "Suc i = n" using Suc.prems by simp_all
    have stop: "retry_loop fn opts (Suc i) (Some (msg i)) (tr @ [Invoke i]) = (Failure (msg i), tr @ [Invoke i])"
      using mr e by (subst retry_loop.simps) (simp add: js_lt_def)
    show ?thesis
      using ri mr dl stop e Suc.prems
      by (subst retry_loop.simps)
         (simp add: js_lt_def js_minus_def backoff_schedule_empty)
  qed
qed

text \<open>
  Claim C8, as the code has it.  The bound on the number of attempts is read from the
  property \<open>maxRetries\<close>.  With \<open>maxRetries = n \<ge> 1\<close> and \<open>initialDelay = d\<close>: if the first
  \<open>k < n\<close> invocations reject and invocation \<open>k\<close> resolves with \<open>v\<close>, the wrapper invokes the
  operation \<open>k + 1\<close> times, pauses \<open>d * 2^j\<close> after failed attempt \<open>j\<close>, and returns \<open>v\<close>;
  if all \<open>n\<close> invocations reject, it pauses between attempts in the same way (not after
  the last) and returns the failure object carrying the message of the last error.
  Without an options argument the wrapper uses \<open>maxRetries = 3\<close> and
  \<open>initialDelay = 100\<close>.
\<close>

theorem retryWithBackoff_maxRetries:
  assumes "js_prop opts ''maxRetries'' = Some (int n)"
    and "js_prop opts ''initialDelay'' = Some d"
    and "1 \<le> n"
  shows "(k < n \<and> (\<forall>j<k. fn j = Rejects (msg j)) \<and> fn k = Resolves v \<longrightarrow>
            retryWithBackoff fn (Some opts) = (Returned v, backoff_schedule d 0 k @ [Invoke k])) \<and>
         ((\<forall>j<n. fn j = Rejects (msg j)) \<longrightarrow>
            retryWithBackoff fn (Some opts) =
              (Failure (msg (n - 1)), backoff_schedule d 0 (n - 1) @ [Invoke (n - 1)])) \<and>
         retryWithBackoff fn None = retryWithBackoff fn (Some retry_defaults)"
proof (intro conjI impI)
  assume a: "k < n \<and> (\<forall>j<k. fn j = Rejects (msg j)) \<and> fn k = Resolves v"
  then have kn: "int k < int n" and ok: "fn k = Resolves v"
    and rej: "\<forall>j. 0 \<le> j \<and> j < k \<longrightarrow> fn j = Rejects (msg j)" by simp_all
  show "retryWithBackoff fn (Some opts) = (Returned v, backoff_schedule d 0 k @ [Invoke k])"
    using retry_loop_success[OF assms(1,2) ok kn _ rej, of None "[]"]
    by (simp add: retryWithBackoff_def)
next
  assume a: "\<forall>j<n. fn j = Rejects (msg j)"
  have "0 < n" using assms(3) by simp
  then show "retryWithBackoff fn (Some opts) =
      (Failure (msg (n - 1)), backoff_schedule d 0 (n - 1) @ [Invoke (n - 1)])"
    using retry_loop_exhausted[OF assms(1,2) a, of 0 None "[]"]
    by (simp add: retryWithBackoff_def)
next
  show "retryWithBackoff fn None = retryWithBackoff fn (Some retry_defaults)"
    by (simp add: retryWithBackoff_def)
qed

theorem retryWithBackoff_maxRetries_witness:
  "retryWithBackoff (\<lambda>k. if k < 2 then Rejects ''ETIMEDOUT'' else Resolves (7 :: nat))
       (Some [(''maxRetries'', 3), (''initialDelay'', 100)]) =
     (Returned 7, [Invoke 0, Sleep (Some 100), Invoke 1, Sleep (Some 200), Invoke 2]) \<and>
   retryWithBackoff (\<lambda>k. Rejects (if k < 2 then ''ETIMEDOUT'' else ''ECONNRESET'') :: nat attempt)
       (Some [(''maxRetries'', 3), (''initialDelay'', 100)]) =
     (Failure ''ECONNRESET'', [Invoke 0, Sleep (Some 100), Invoke 1, Sleep (Some 200), Invoke 2])"
proof -
  let ?opts = "[(''maxRetries'', 3), (''initialDelay'', 100)] :: js_options"
  have mr: "js_prop ?opts ''maxRetries'' = Some (int 3)"
    and dl: "js_prop ?opts ''initialDelay'' = Some 100"
    by (simp_all add: js_prop_def)
  have n: "1 \<le> (3 :: nat)" by simp
  have sched: "backoff_schedule 100 0 2 = [Invoke 0, Sleep (Some 100), Invoke 1, Sleep (Some 200)]"
    by (simp add: backoff_schedule_def upt_conv_Cons)
  note t1 = retryWithBackoff_maxRetries [OF mr dl n,
      of 2 "\<lambda>k. if k < 2 then Rejects ''ETIMEDOUT'' else Resolves (7 :: nat)"
         "\<lambda>k. ''ETIMEDOUT''" 7]
  note t2 = retryWithBackoff_maxRetries [OF mr dl n,
      of 0 "\<lambda>k. Rejects (if k < 2 then ''ETIMEDOUT'' else ''ECONNRESET'') :: nat attempt"
         "\<lambda>k. if k < 2 then ''ETIMEDOUT'' else ''ECONNRESET''" 0]
  have a: "retryWithBackoff (\<lambda>k. if k < 2 then Rejects ''ETIMEDOUT'' else Resolves (7 :: nat))
       (Some ?opts) = (Returned 7, backoff_schedule 100 0 2 @ [Invoke 2])"
    using t1 by simp
  have b: "retryWithBackoff (\<lambda>k. Rejects (if k < 2 then ''ETIMEDOUT'' else ''ECONNRESET'') :: nat attempt)
       (Some ?opts) = (Failure ''ECONNRESET'', backoff_schedule 100 0 2 @ [Invoke 2])"
    using t2 by simp
  show ?thesis using a b by (simp add: sched)
qed

text \<open>
  With the options object \<open>{maxAttempts: 3, initialDelay: 100}\<close> the property
  \<open>maxRetries\<close> is \<open>undefined\<close>: the loop body never runs, the operation is not invoked at
  all (even one that would succeed at once), and reading \<open>lastError.message\<close> raises.
\<close>

theorem retryWithBackoff_maxAttempts_counterexample:
  "retryWithBackoff (\<lambda>k. Resolves (1 :: nat)) (Some [(''maxAttempts'', 3), (''initialDelay'', 100)]) =
     (Throws (TypeError ''Cannot read properties of undefined''), []) \<and>
   retryWithBackoff (\<lambda>k. Rejects ''ETIMEDOUT'' :: nat attempt)
       (Some [(''maxAttempts'', 3), (''initialDelay'', 100)]) =
     (Throws (TypeError ''Cannot read properties of undefined''), [])"
  by (simp add: retryWithBackoff_def retry_loop.simps js_lt_def js_prop_def)

section \<open>Properties of the configuration store\<close>

lemma map_of_insert_fresh:
  "k \<notin> fst ` set xs \<Longrightarrow>
   map_of (xs @ (k, v) # ys) k' = (if k' = k then Some v else map_of (xs @ ys) k')"
  by (induction xs) auto

lemma map_of_replace:
  "map_of (map (\<lambda>p. if fst p = k then (k, v) else p) obj) k' =
     (if k' = k then map_option (\<lambda>_. v) (map_of obj k) else map_of obj k')"
  by (induction obj) auto

lemma map_of_js_assign: "map_of (js_assign obj k v) k' = (if k' = k then Some v else map_of obj k')"
proof (cases "map_of obj k")
  case None
  then have nk: "k \<notin> fst ` set obj" by (simp add: map_of_eq_None_iff)
  have tw: "k \<notin> fst ` set (takeWhile (index_before k) obj)"
    using nk by (auto dest: set_takeWhileD)
  show ?thesis
  proof (cases "is_array_index k")
    case True
    have eq: "js_assign obj k v =
        takeWhile (index_before k) obj @ (k, v) # dropWhile (index_before k) obj"
      using None True by (simp add: js_assign_def)
    have "map_of (takeWhile (index_before k) obj @ dropWhile (index_before k) obj) k' = map_of obj k'"
      by simp
    then show ?thesis
      unfolding eq map_of_insert_fresh[OF tw] by simp
  next
    case False
    have eq: "js_assign obj k v = obj @ (k, v) # []"
      using None False by (simp add: js_assign_def)
    show ?thesis unfolding eq map_of_insert_fresh[OF nk] by simp
  qed
next
  case (Some a)
  then have eq: "js_assign obj k v = map (\<lambda>p. if fst p = k then (k, v) else p) obj"
    by (simp add: js_assign_def)
  show ?thesis unfolding eq map_of_replace using Some by simp
qed

lemma map_of_js_delete: "map_of (js_delete obj k) k' = (if k' = k then None else map_of obj k')"
  by (induction obj) (auto simp: js_delete_def)

lemma loadConfig_saveConfig: "loadConfig (saveConfig st data) = data"
  by (simp add: loadConfig_def saveConfig_def)

lemma loadConfig_addServer:
  "loadConfig (addServer st name obj) =
     js_assign (loadConfig st) name
       \<lparr>host = host obj, user = user obj, port = None, authType = Some ''key'',
          keyPath = (if truthy (keyPath obj) then keyPath obj else None),
          passphrase = None, other = []\<rparr>"
  by (simp add: addServer_def Let_def loadConfig_def saveConfig_def keytar_setPassword_def
      split: option.splits)

lemma keychain_addServer:
  "keychain (addServer st name obj) =
     (case passphrase obj of
        None \<Rightarrow> keychain st
      | Some pw \<Rightarrow> if pw \<noteq> [] then (keychain st)((service, account name) \<mapsto> pw) else keychain st)"
  by (simp add: addServer_def Let_def saveConfig_def keytar_setPassword_def split: option.splits)

text \<open>
  Claim C9.  Whatever object \<open>addServer\<close> is given, the entry it writes to the configuration
  file under the alias has exactly the properties \<open>host\<close> and \<open>user\<close> (copied),
  \<open>authType\<close> (always \<open>"key"\<close>) and, when a non-empty one is supplied, \<open>keyPath\<close>.  The
  port, the passphrase and every other property of the input are absent from the entry;
  a non-empty passphrase goes to the secret store, under the account of the alias.
\<close>

theorem addServer_written_fields:
  "map_of (loadConfig (addServer st name obj)) name =
     Some \<lparr>host = host obj, user = user obj, port = None, authType = Some ''key'',
            keyPath = (if truthy (keyPath obj) then keyPath obj else None),
            passphrase = None, other = []\<rparr> \<and>
   keychain (addServer st name obj) (service, account name) =
     (if truthy (passphrase obj) then passphrase obj else keychain st (service, account name))"
  by (simp add: loadConfig_addServer map_of_js_assign keychain_addServer truthy_def
      split: option.splits)

lemma getServer_addServer:
  "getServer (addServer st name obj) name =
     Some \<lparr>host = host obj, user = user obj, port = None, authType = Some ''key'',
            keyPath = (if truthy (keyPath obj) then keyPath obj else None),
            passphrase = (if truthy (passphrase obj) then passphrase obj
                          else keychain st (service, account name)),
            other = []\<rparr>"
  by (simp add: getServer_def loadConfig_addServer map_of_js_assign keychain_addServer
      keytar_getPassword_def truthy_def split: option.splits)

text \<open>
  Claim C1 at the input of the specification's end-to-end scenario.  On a store that is
  empty, \<open>addServer "web1"\<close> with port 22 followed by \<open>getServer "web1"\<close> gives back the
  host, the user, the authentication type and the key path, and no port at all.  The
  same holds after a complete run of \<open>init "web1"\<close> in which the user entered port 22:
  the record \<open>getServer\<close> returns has no port.
\<close>

theorem addServer_getServer_drops_port:
  "getServer
     (addServer \<lparr>config_file = None, keychain = Map.empty, delete_missing_raises = False\<rparr>
        ''web1''
        \<lparr>host = Some ''203.0.113.10'', user = Some ''deploy'', port = Some (PNum 22),
           authType = Some ''key'', keyPath = Some ''~/.ssh/id_rsa'', passphrase = None,
           other = []\<rparr>)
     ''web1'' =
   Some \<lparr>host = Some ''203.0.113.10'', user = Some ''deploy'', port = None,
          authType = Some ''key'', keyPath = Some ''~/.ssh/id_rsa'', passphrase = None,
          other = []\<rparr> \<and>
   fst (init ''web1''
          \<lparr>replace_answer = False, host_answer = ''203.0.113.10'', user_answer = ''deploy'',
             port_answer = PNum 22, password_answer = ''secret'', private_key_present = False,
             keygen_error = None, password_connect = None,
             public_key_read = Inr (Some ''ssh-rsa AAAA k''),
             remote_exec = scripted
               [\<lparr>code = Some 0, stdout = [], stderr = []\<rparr>,
                \<lparr>code = Some 0, stdout = [], stderr = []\<rparr>,
                \<lparr>code = Some 0, stdout = [], stderr = []\<rparr>,
                \<lparr>code = Some 0, stdout = ''OK'', stderr = []\<rparr>],
             private_key_read = Inr ''PRIVATE KEY'', key_connect = None\<rparr>
          \<lparr>cfg_store = \<lparr>config_file = None, keychain = Map.empty,
               delete_missing_raises = False\<rparr>,
             ssh = 0, trace = []\<rparr>) = Done \<and>
   getServer (cfg_store (snd (init ''web1''
          \<lparr>replace_answer = False, host_answer = ''203.0.113.10'', user_answer = ''deploy'',
             port_answer = PNum 22, password_answer = ''secret'', private_key_present = False,
             keygen_error = None, password_connect = None,
             public_key_read = Inr (Some ''ssh-rsa AAAA k''),
             remote_exec = scripted
               [\<lparr>code = Some 0, stdout = [], stderr = []\<rparr>,
                \<lparr>code = Some 0, stdout = [], stderr = []\<rparr>,
                \<lparr>code = Some 0, stdout = [], stderr = []\<rparr>,
                \<lparr>code = Some 0, stdout = ''OK'', stderr = []\<rparr>],
             private_key_read = Inr ''PRIVATE KEY'', key_connect = None\<rparr>
          \<lparr>cfg_store = \<lparr>config_file = None, keychain = Map.empty,
               delete_missing_raises = False\<rparr>,
             ssh = 0, trace = []\<rparr>))) ''web1'' =
   Some \<lparr>host = Some ''203.0.113.10'', user = Some ''deploy'', port = None,
          authType = Some ''key'', keyPath = Some ''~/.ssh/id_rsa'', passphrase = None,
          other = []\<rparr>"
  by code_simp

text \<open>
  Claim C6.  For an alias stored with \<open>authType = "key"\<close> and no entry in the secret store,
  \<open>getServer\<close> returns the stored record with an empty passphrase, and \<open>removeServer\<close>
  completes normally, leaving the configuration without the alias, whether or not the
  secret store raises when asked to delete an entry it does not have.
\<close>

theorem secret_absence_is_not_an_error:
  assumes "map_of (loadConfig st) name = Some cfg"
    and "authType cfg = Some ''key''"
    and "keytar_getPassword st service (account name) = None"
  shows "getServer st name = Some (cfg\<lparr>passphrase := None\<rparr>) \<and>
         removeServer st name = Inr (st\<lparr>config_file := Some (js_delete (loadConfig st) name)\<rparr>)"
  using assms
  by (simp add: getServer_def removeServer_def keytar_deletePassword_def keytar_getPassword_def
      saveConfig_def Let_def)

theorem secret_absence_is_not_an_error_witness:
  "getServer
     \<lparr>config_file = Some [(''web1'', \<lparr>host = Some ''203.0.113.10'', user = Some ''deploy'',
          port = None, authType = Some ''key'', keyPath = Some ''~/.ssh/id_rsa'',
          passphrase = None, other = []\<rparr>)],
      keychain = Map.empty, delete_missing_raises = True\<rparr> ''web1'' =
     Some \<lparr>host = Some ''203.0.113.10'', user = Some ''deploy'', port = None,
            authType = Some ''key'', keyPath = Some ''~/.ssh/id_rsa'', passphrase = None,
            other = []\<rparr> \<and>
   removeServer
     \<lparr>config_file = Some [(''web1'', \<lparr>host = Some ''203.0.113.10'', user = Some ''deploy'',
          port = None, authType = Some ''key'', keyPath = Some ''~/.ssh/id_rsa'',
          passphrase = None, other = []\<rparr>)],
      keychain = Map.empty, delete_missing_raises = True\<rparr> ''web1'' =
     Inr \<lparr>config_file = Some [], keychain = Map.empty, delete_missing_raises = True\<rparr>"
proof -
  let ?e = "\<lparr>host = Some ''203.0.113.10'', user = Some ''deploy'',
          port = None, authType = Some ''key'', keyPath = Some ''~/.ssh/id_rsa'',
          passphrase = None, other = []\<rparr>"
  let ?st = "\<lparr>config_file = Some [(''web1'', ?e)], keychain = Map.empty,
          delete_missing_raises = True\<rparr>"
  have a: "map_of (loadConfig ?st) ''web1'' = Some ?e" by (simp add: loadConfig_def)
  have b: "authType ?e = Some ''key''" by simp
  have c: "keytar_getPassword ?st service (account ''web1'') = None"
    by (simp add: keytar_getPassword_def)
  show ?thesis
    using secret_absence_is_not_an_error[OF a b c]
    by (simp add: loadConfig_def js_delete_def)
qed

section \<open>Properties of connect\<close>

lemma connect_rejection_uncaught:
  assumes "n \<noteq> []" and "getServer st n = Some cfg" and "keyPath cfg = Some kp"
    and "key_exists env" and "key_read env = Inr k" and "ssh_connect env = Some m"
  shows "connect env st (Some n) =
           (Uncaught (ReferenceError ''authType is not defined''),
            [LogInfo (''Connecting to '' @ show_undefined (user cfg) @ ''@'' @
               show_undefined (host cfg) @ '':'' @ port_toString (port_or_22 (port cfg)) @ ''...'')])"
  using assms by (simp add: connect_def truthy_def show_undefined_def Let_def)

lemma handleConnectionError_refused:
  assumes "\<not> js_includes (toLowerCase m) ''enotfound''"
    and "\<not> js_includes (toLowerCase m) ''getaddrinfo''"
    and "js_includes (toLowerCase m) ''econnrefused''"
  shows "handleConnectionError (Some m) name a =
           [LogError (CHR 0x0A # ''Connection failed!''),
            LogError ''  Connection refused. Check SSH is running on that port.'']"
  using assms by (simp add: handleConnectionError_def)

lemma handleConnectionError_resolution_first:
  assumes "js_includes (toLowerCase m) ''enotfound'' \<or> js_includes (toLowerCase m) ''getaddrinfo''"
  shows "handleConnectionError (Some m) name a =
           [LogError (CHR 0x0A # ''Connection failed!''),
            LogError ''  Cannot resolve hostname. Check network and host.'']"
  using assms by (auto simp add: handleConnectionError_def)

lemma handleConnectionError_timeout:
  assumes "\<not> js_includes (toLowerCase m) ''enotfound''"
    and "\<not> js_includes (toLowerCase m) ''getaddrinfo''"
    and "\<not> js_includes (toLowerCase m) ''econnrefused''"
    and "js_includes (toLowerCase m) ''etimedout'' \<or> js_includes (toLowerCase m) ''timeout''"
  shows "handleConnectionError (Some m) name a =
           [LogError (CHR 0x0A # ''Connection failed!''),
            LogError ''  Connection timed out. Check network.'']"
  using assms by (auto simp add: handleConnectionError_def)

lemma handleConnectionError_credentials:
  assumes "\<not> js_includes (toLowerCase m) ''enotfound''"
    and "\<not> js_includes (toLowerCase m) ''getaddrinfo''"
    and "\<not> js_includes (toLowerCase m) ''econnrefused''"
    and "\<not> js_includes (toLowerCase m) ''etimedout''"
    and "\<not> js_includes (toLowerCase m) ''timeout''"
    and "js_includes (toLowerCase m) ''authentication'' \<or>
         js_includes (toLowerCase m) ''permission denied''"
  shows "take 2 (handleConnectionError (Some m) name a) =
           [LogError (CHR 0x0A # ''Connection failed!''), LogError ''  Authentication failed.'']"
    and "length (handleConnectionError (Some m) name a) = (if a = Some ''key'' then 8 else 2)"
  using assms by (auto simp add: handleConnectionError_def)

lemma handleConnectionError_other:
  assumes "\<not> js_includes (toLowerCase m) ''enotfound''"
    and "\<not> js_includes (toLowerCase m) ''getaddrinfo''"
    and "\<not> js_includes (toLowerCase m) ''econnrefused''"
    and "\<not> js_includes (toLowerCase m) ''etimedout''"
    and "\<not> js_includes (toLowerCase m) ''timeout''"
    and "\<not> js_includes (toLowerCase m) ''authentication''"
    and "\<not> js_includes (toLowerCase m) ''permission denied''"
  shows "handleConnectionError (Some m) name a =
           [LogError (CHR 0x0A # ''Connection failed!''), LogError (''  '' @ m)]"
  using assms by (simp add: handleConnectionError_def show_undefined_def)

text \<open>
  Claim C3 at a concrete failure.  The alias \<open>web1\<close> is stored with key authentication,
  the private key is present and readable, and \<open>ssh.connect\<close> rejects with
  \<open>connect ECONNREFUSED 203.0.113.10:22\<close>.  The run ends with an uncaught
  \<open>ReferenceError\<close> after the line \<open>Connecting to ...\<close>: nothing of the classification is
  printed.  Called with the same error, \<open>handleConnectionError\<close> itself would have
  reported a refused connection.
\<close>

theorem connect_error_never_classified:
  "connect
     \<lparr>homedir = ''/home/deploy'', key_exists = True, key_read = Inr ''PRIVATE KEY'',
        ssh_connect = Some ''connect ECONNREFUSED 203.0.113.10:22'', request_shell = None\<rparr>
     \<lparr>config_file = Some [(''web1'',
          \<lparr>host = Some ''203.0.113.10'', user = Some ''deploy'', port = None,
             authType = Some ''key'', keyPath = Some ''~/.ssh/id_rsa'', passphrase = None,
             other = []\<rparr>)],
        keychain = Map.empty, delete_missing_raises = False\<rparr>
     (Some ''web1'') =
   (Uncaught (ReferenceError ''authType is not defined''),
    [LogInfo ''Connecting to deploy@203.0.113.10:22...'']) \<and>
   handleConnectionError (Some ''connect ECONNREFUSED 203.0.113.10:22'') ''web1'' (Some ''key'') =
     [LogError (CHR 0x0A # ''Connection failed!''),
      LogError ''  Connection refused. Check SSH is running on that port.'']"
  by code_simp

section \<open>Properties of the remote installer\<close>

lemma commands_append: "commands (xs @ ys) = commands xs @ commands ys"
  by (induction xs rule: commands.induct) simp_all

lemma trace_say: "trace (say l w) = trace w @ [Log l]"
  by (simp add: say_def)

lemma trace_emit: "trace (emit e w) = trace w @ [e]"
  by (simp add: emit_def)

lemma cfg_store_say: "cfg_store (say l w) = cfg_store w"
  by (simp add: say_def)

lemma cfg_store_emit: "cfg_store (emit e w) = cfg_store w"
  by (simp add: emit_def)

lemma execCommand_effect:
  assumes "execCommand remote w cmd = (w', r)"
  shows "trace w' = trace w @ [Exec cmd r]" and "cfg_store w' = cfg_store w"
  using assms by (auto simp: execCommand_def split: prod.splits)

lemma tryDirectAppendMethod_commands:
  assumes "tryDirectAppendMethod remote w keyLine = (w', result1)"
  shows "\<exists>rest. commands (trace w') = commands (trace w) @ direct_command keyLine # rest \<and>
           (result1 = Inr MethodTrue \<longrightarrow> rest = [chmod_command]) \<and>
           (\<forall>e. result1 = Inr (MethodFailed e) \<longrightarrow> rest = [])"
  using assms
  by (auto simp: tryDirectAppendMethod_def commands_append trace_say
      split: prod.splits sum.splits if_splits dest!: execCommand_effect(1))

lemma tryBase64Method_commands:
  assumes "tryBase64Method remote w keyLine = (w', result2)"
  shows "\<exists>rest. commands (trace w') = commands (trace w) @ base64_command keyLine # rest \<and>
           (result2 = Inr MethodTrue \<longrightarrow> rest = [chmod_command]) \<and>
           (\<forall>e. result2 = Inr (MethodFailed e) \<longrightarrow> rest = [])"
  using assms
  by (auto simp: tryBase64Method_def commands_append trace_say
      split: prod.splits sum.splits if_splits dest!: execCommand_effect(1))

text \<open>
  Claim C4, with what the installer does when \<open>execCommand\<close> rejects.  Name the answer
  to the directory command \<open>r0\<close>, the result of Method 1 (the escaped literal append)
  \<open>result1\<close>, and the result of Method 2 (the base64 append), run in the state Method 1
  left, \<open>result2\<close>.

  If the directory command is rejected, the installer prints the message of that error
  and returns \<open>false\<close>.  Otherwise the literal append of Method 1 is the first command
  after the directory command, and:
  \<^item> if Method 1 returns \<open>true\<close>, the installer returns \<open>true\<close> in the state Method 1
    left, having run the directory command, the literal append and the \<open>chmod\<close>: Method
    2 is not attempted;
  \<^item> if Method 1 is interrupted by a rejected command, the installer prints the message
    of that error and returns \<open>false\<close>, again without attempting Method 2;
  \<^item> if Method 1 returns a failure, Method 2 runs next.  If it returns \<open>true\<close>, the
    installer returns \<open>true\<close>.  If it returns a failure too, the installer prints
    \<open>Both methods failed\<close> and the standard error of each method, and returns \<open>false\<close>.
    If it is interrupted by a rejected command, the installer prints the message of
    that error only and returns \<open>false\<close>.
\<close>

theorem addPublicKeyToRemote_fallback:
  assumes mk: "execCommand remote
                 (say (LogInfo (CHR 0x0A # '' Adding public key to remote server...'')) w)
                 mkdir_command = (w1, r0)"
    and w2: "w2 = (case r0 of
                     Inl e \<Rightarrow> w1
                   | Inr mkdirResult \<Rightarrow>
                       if exited_ok mkdirResult then w1
                       else say (LogWarn (''mkdir result: '' @ stderr mkdirResult)) w1)"
    and m1: "tryDirectAppendMethod remote w2 (trim pubKeyContent) = (w3, result1)"
    and m2: "tryBase64Method remote w3 (trim pubKeyContent) = (w4, result2)"
  shows "(case r0 of
            Inl e \<Rightarrow>
              addPublicKeyToRemote remote w pubKeyContent =
                (say (LogError (''Error adding public key to remote: '' @ e)) w1, False)
          | Inr mkdirResult \<Rightarrow>
              (\<exists>rest. commands (trace w3) =
                 commands (trace w) @
                 mkdir_command # direct_command (trim pubKeyContent) # rest) \<and>
              (case result1 of
                 Inl e \<Rightarrow>
                   addPublicKeyToRemote remote w pubKeyContent =
                     (say (LogError (''Error adding public key to remote: '' @ e)) w3, False)
               | Inr MethodTrue \<Rightarrow>
                   addPublicKeyToRemote remote w pubKeyContent = (w3, True) \<and>
                   commands (trace w3) =
                     commands (trace w) @
                     [mkdir_command, direct_command (trim pubKeyContent), chmod_command]
               | Inr (MethodFailed stderr1) \<Rightarrow>
                   (case result2 of
                      Inl e \<Rightarrow>
                        addPublicKeyToRemote remote w pubKeyContent =
                          (say (LogError (''Error adding public key to remote: '' @ e)) w4,
                           False)
                    | Inr MethodTrue \<Rightarrow>
                        addPublicKeyToRemote remote w pubKeyContent = (w4, True) \<and>
                        commands (trace w4) =
                          commands (trace w) @
                          [mkdir_command, direct_command (trim pubKeyContent),
                           base64_command (trim pubKeyContent), chmod_command]
                    | Inr (MethodFailed stderr2) \<Rightarrow>
                        addPublicKeyToRemote remote w pubKeyContent =
                          (w4\<lparr>trace := trace w4 @
                               [Log (LogError ''Both methods failed''),
                                Log (LogError (''Method 1 stderr: '' @ stderr1)),
                                Log (LogError (''Method 2 stderr: '' @ stderr2))]\<rparr>,
                           False) \<and>
                        commands (trace w4) =
                          commands (trace w) @
                          [mkdir_command, direct_command (trim pubKeyContent),
                           base64_command (trim pubKeyContent)])))"
proof (cases r0)
  case (Inl e)
  show ?thesis
    unfolding addPublicKeyToRemote_def mk Inl by (simp add: install_caught_def)
next
  case (Inr mkdirResult)
  have w2': "(if \<not> exited_ok mkdirResult
              then say (LogWarn (''mkdir result: '' @ stderr mkdirResult)) w1 else w1) = w2"
    using w2 Inr by simp
  have c2: "commands (trace w2) = commands (trace w) @ [mkdir_command]"
    using w2 Inr execCommand_effect(1)[OF mk] by (simp add: commands_append trace_say)
  obtain rest1 where
    c3: "commands (trace w3) = commands (trace w2) @ direct_command (trim pubKeyContent) # rest1"
    and c3t: "result1 = Inr MethodTrue \<longrightarrow> rest1 = [chmod_command]"
    and c3f: "\<forall>e. result1 = Inr (MethodFailed e) \<longrightarrow> rest1 = []"
    using tryDirectAppendMethod_commands[OF m1] by blast
  obtain rest2 where
    c4: "commands (trace w4) = commands (trace w3) @ base64_command (trim pubKeyContent) # rest2"
    and c4t: "result2 = Inr MethodTrue \<longrightarrow> rest2 = [chmod_command]"
    and c4f: "\<forall>e. result2 = Inr (MethodFailed e) \<longrightarrow> rest2 = []"
    using tryBase64Method_commands[OF m2] by blast
  have start: "addPublicKeyToRemote remote w pubKeyContent =
      (case (w3, result1) of
         (w3, Inl e) \<Rightarrow> install_caught w3 e
       | (w3, Inr MethodTrue) \<Rightarrow> (w3, True)
       | (w3, Inr (MethodFailed stderr1)) \<Rightarrow>
           (case tryBase64Method remote w3 (trim pubKeyContent) of
              (w4, Inl e) \<Rightarrow> install_caught w4 e
            | (w4, Inr MethodTrue) \<Rightarrow> (w4, True)
            | (w4, Inr (MethodFailed stderr2)) \<Rightarrow>
                (say (LogError (''Method 2 stderr: '' @ stderr2))
                   (say (LogError (''Method 1 stderr: '' @ stderr1))
                      (say (LogError ''Both methods failed'') w4)),
                 False)))"
    unfolding addPublicKeyToRemote_def mk Inr Let_def prod.case sum.case w2' m1 ..
  have first: "\<exists>rest. commands (trace w3) =
      commands (trace w) @ mkdir_command # direct_command (trim pubKeyContent) # rest"
    using c2 c3 by simp
  have rest: "(case result1 of
                 Inl e \<Rightarrow>
                   addPublicKeyToRemote remote w pubKeyContent =
                     (say (LogError (''Error adding public key to remote: '' @ e)) w3, False)
               | Inr MethodTrue \<Rightarrow>
                   addPublicKeyToRemote remote w pubKeyContent = (w3, True) \<and>
                   commands (trace w3) =
                     commands (trace w) @
                     [mkdir_command, direct_command (trim pubKeyContent), chmod_command]
               | Inr (MethodFailed stderr1) \<Rightarrow>
                   (case result2 of
                      Inl e \<Rightarrow>
                        addPublicKeyToRemote remote w pubKeyContent =
                          (say (LogError (''Error adding public key to remote: '' @ e)) w4,
                           False)
                    | Inr MethodTrue \<Rightarrow>
                        addPublicKeyToRemote remote w pubKeyContent = (w4, True) \<and>
                        commands (trace w4) =
                          commands (trace w) @
                          [mkdir_command, direct_command (trim pubKeyContent),
                           base64_command (trim pubKeyContent), chmod_command]
                    | Inr (MethodFailed stderr2) \<Rightarrow>
                        addPublicKeyToRemote remote w pubKeyContent =
                          (w4\<lparr>trace := trace w4 @
                               [Log (LogError ''Both methods failed''),
                                Log (LogError (''Method 1 stderr: '' @ stderr1)),
                                Log (LogError (''Method 2 stderr: '' @ stderr2))]\<rparr>,
                           False) \<and>
                        commands (trace w4) =
                          commands (trace w) @
                          [mkdir_command, direct_command (trim pubKeyContent),
                           base64_command (trim pubKeyContent)]))"
  proof (cases result1)
    case (Inl e)
    show ?thesis unfolding start Inl by (simp add: install_caught_def)
  next
    case r1: (Inr mr1)
    show ?thesis
    proof (cases mr1)
      case MethodTrue
      show ?thesis
        unfolding start r1 MethodTrue using c2 c3 c3t r1 MethodTrue by simp
    next
      case (MethodFailed stderr1)
      have c3': "commands (trace w3) =
          commands (trace w) @ [mkdir_command, direct_command (trim pubKeyContent)]"
        using c2 c3 c3f r1 MethodFailed by simp
      show ?thesis
      proof (cases result2)
        case (Inl e)
        show ?thesis
          unfolding start r1 MethodFailed using m2 Inl by (simp add: install_caught_def)
      next
        case r2: (Inr mr2)
        show ?thesis
        proof (cases mr2)
          case MethodTrue
          show ?thesis
            unfolding start r1 MethodFailed using m2 r2 MethodTrue c3' c4 c4t by simp
        next
          case mf2: (MethodFailed stderr2)
          show ?thesis
            unfolding start r1 MethodFailed using m2 r2 mf2 c3' c4 c4f
            by (simp add: say_def)
        qed
      qed
    qed
  qed
  show ?thesis unfolding Inr using first rest by simp
qed

theorem addPublicKeyToRemote_fallback_witness:
  "snd (addPublicKeyToRemote
          (scripted [\<lparr>code = Some 0, stdout = [], stderr = []\<rparr>,
                     \<lparr>code = Some 2, stdout = [], stderr = ''sh: syntax error''\<rparr>,
                     \<lparr>code = Some 127, stdout = [], stderr = ''sh: base64: not found''\<rparr>])
          \<lparr>cfg_store = \<lparr>config_file = None, keychain = Map.empty, delete_missing_raises = False\<rparr>,
             ssh = 0, trace = []\<rparr>
          ''ssh-rsa AAAA k'') = False \<and>
   Log (LogError ''Method 1 stderr: sh: syntax error'') \<in>
     set (trace (fst (addPublicKeyToRemote
          (scripted [\<lparr>code = Some 0, stdout = [], stderr = []\<rparr>,
                     \<lparr>code = Some 2, stdout = [], stderr = ''sh: syntax error''\<rparr>,
                     \<lparr>code = Some 127, stdout = [], stderr = ''sh: base64: not found''\<rparr>])
          \<lparr>cfg_store = \<lparr>config_file = None, keychain = Map.empty, delete_missing_raises = False\<rparr>,
             ssh = 0, trace = []\<rparr>
          ''ssh-rsa AAAA k''))) \<and>
   Log (LogError ''Method 2 stderr: sh: base64: not found'') \<in>
     set (trace (fst (addPublicKeyToRemote
          (scripted [\<lparr>code = Some 0, stdout = [], stderr = []\<rparr>,
                     \<lparr>code = Some 2, stdout = [], stderr = ''sh: syntax error''\<rparr>,
                     \<lparr>code = Some 127, stdout = [], stderr = ''sh: base64: not found''\<rparr>])
          \<lparr>cfg_store = \<lparr>config_file = None, keychain = Map.empty, delete_missing_raises = False\<rparr>,
             ssh = 0, trace = []\<rparr>
          ''ssh-rsa AAAA k''))) \<and>
   snd (addPublicKeyToRemote
          (scripted [\<lparr>code = Some 0, stdout = [], stderr = []\<rparr>,
                     \<lparr>code = Some 2, stdout = [], stderr = ''sh: syntax error''\<rparr>,
                     \<lparr>code = Some 0, stdout = [], stderr = []\<rparr>,
                     \<lparr>code = Some 0, stdout = [], stderr = []\<rparr>])
          \<lparr>cfg_store = \<lparr>config_file = None, keychain = Map.empty, delete_missing_raises = False\<rparr>,
             ssh = 0, trace = []\<rparr>
          ''ssh-rsa AAAA k'') = True \<and>
   commands (trace (fst (addPublicKeyToRemote
          (scripted [\<lparr>code = Some 0, stdout = [], stderr = []\<rparr>,
                     \<lparr>code = Some 2, stdout = [], stderr = ''sh: syntax error''\<rparr>,
                     \<lparr>code = Some 0, stdout = [], stderr = []\<rparr>,
                     \<lparr>code = Some 0, stdout = [], stderr = []\<rparr>])
          \<lparr>cfg_store = \<lparr>config_file = None, keychain = Map.empty, delete_missing_raises = False\<rparr>,
             ssh = 0, trace = []\<rparr>
          ''ssh-rsa AAAA k''))) =
     [mkdir_command, direct_command ''ssh-rsa AAAA k'', base64_command ''ssh-rsa AAAA k'',
      chmod_command] \<and>
   snd (addPublicKeyToRemote
          (scripted [])
          \<lparr>cfg_store = \<lparr>config_file = None, keychain = Map.empty, delete_missing_raises = False\<rparr>,
             ssh = 0, trace = []\<rparr>
          ''ssh-rsa AAAA k'') = False"
proof -
  let ?ok = "\<lparr>code = Some 0, stdout = [], stderr = []\<rparr>"
  let ?f1 = "\<lparr>code = Some 2, stdout = [], stderr = ''sh: syntax error''\<rparr>"
  let ?f2 = "\<lparr>code = Some 127, stdout = [], stderr = ''sh: base64: not found''\<rparr>"
  let ?w = "\<lparr>cfg_store = \<lparr>config_file = None, keychain = Map.empty, delete_missing_raises = False\<rparr>,
             ssh = 0 :: nat, trace = []\<rparr>"
  let ?key = "''ssh-rsa AAAA k''"
  let ?say = "say (LogInfo (CHR 0x0A # '' Adding public key to remote server...'')) ?w"
  have tk: "trim ?key = ?key" by (simp add: trim_def is_js_whitespace_def)
  have both: "addPublicKeyToRemote (scripted [?ok, ?f1, ?f2]) ?w ?key =
      (w4\<lparr>trace := trace w4 @
           [Log (LogError ''Both methods failed''),
            Log (LogError (''Method 1 stderr: '' @ ''sh: syntax error'')),
            Log (LogError (''Method 2 stderr: '' @ ''sh: base64: not found''))]\<rparr>, False)"
    if "w4 = fst (tryBase64Method (scripted [?ok, ?f1, ?f2])
                   (fst (tryDirectAppendMethod (scripted [?ok, ?f1, ?f2])
                      (fst (execCommand (scripted [?ok, ?f1, ?f2]) ?say mkdir_command))
                      (trim ?key))) (trim ?key))" for w4
  proof -
    let ?R = "scripted [?ok, ?f1, ?f2]"
    define w1 where "w1 = fst (execCommand ?R ?say mkdir_command)"
    have s1: "ssh w1 = Suc 0" by (simp add: w1_def execCommand_def scripted_def say_def)
    have mk: "execCommand ?R ?say mkdir_command = (w1, Inr ?ok)"
      by (simp add: w1_def execCommand_def scripted_def say_def)
    have w2: "w1 = (case Inr ?ok :: string + exec_result of
                      Inl e \<Rightarrow> w1
                    | Inr mkdirResult \<Rightarrow>
                        if exited_ok mkdirResult then w1
                        else say (LogWarn (''mkdir result: '' @ stderr mkdirResult)) w1)"
      by (simp add: exited_ok_def)
    define w3 where "w3 = fst (tryDirectAppendMethod ?R w1 (trim ?key))"
    have s3: "ssh w3 = Suc (Suc 0)"
      by (simp add: w3_def tryDirectAppendMethod_def execCommand_def scripted_def say_def
          exited_ok_def s1)
    have m1: "tryDirectAppendMethod ?R w1 (trim ?key) =
        (w3, Inr (MethodFailed ''sh: syntax error''))"
      by (simp add: w3_def tryDirectAppendMethod_def execCommand_def scripted_def say_def
          exited_ok_def s1)
    have w4: "w4 = fst (tryBase64Method ?R w3 (trim ?key))"
      using that by (simp add: w3_def w1_def)
    have m2: "tryBase64Method ?R w3 (trim ?key) =
        (w4, Inr (MethodFailed ''sh: base64: not found''))"
      by (simp add: w4 tryBase64Method_def execCommand_def scripted_def say_def
          exited_ok_def s3)
    note t = addPublicKeyToRemote_fallback [OF mk w2 m1 m2]
    from t show ?thesis by simp
  qed
  have second: "addPublicKeyToRemote (scripted [?ok, ?f1, ?ok, ?ok]) ?w ?key = (w4, True) \<and>
      commands (trace w4) =
        commands (trace ?w) @
        [mkdir_command, direct_command (trim ?key), base64_command (trim ?key), chmod_command]"
    if "w4 = fst (tryBase64Method (scripted [?ok, ?f1, ?ok, ?ok])
                   (fst (tryDirectAppendMethod (scripted [?ok, ?f1, ?ok, ?ok])
                      (fst (execCommand (scripted [?ok, ?f1, ?ok, ?ok]) ?say mkdir_command))
                      (trim ?key))) (trim ?key))" for w4
  proof -
    let ?R = "scripted [?ok, ?f1, ?ok, ?ok]"
    define w1 where "w1 = fst (execCommand ?R ?say mkdir_command)"
    have s1: "ssh w1 = Suc 0" by (simp add: w1_def execCommand_def scripted_def say_def)
    have mk: "execCommand ?R ?say mkdir_command = (w1, Inr ?ok)"
      by (simp add: w1_def execCommand_def scripted_def say_def)
    have w2: "w1 = (case Inr ?ok :: string + exec_result of
                      Inl e \<Rightarrow> w1
                    | Inr mkdirResult \<Rightarrow>
                        if exited_ok mkdirResult then w1
                        else say (LogWarn (''mkdir result: '' @ stderr mkdirResult)) w1)"
      by (simp add: exited_ok_def)
    define w3 where "w3 = fst (tryDirectAppendMethod ?R w1 (trim ?key))"
    have s3: "ssh w3 = Suc (Suc 0)"
      by (simp add: w3_def tryDirectAppendMethod_def execCommand_def scripted_def say_def
          exited_ok_def s1)
    have m1: "tryDirectAppendMethod ?R w1 (trim ?key) =
        (w3, Inr (MethodFailed ''sh: syntax error''))"
      by (simp add: w3_def tryDirectAppendMethod_def execCommand_def scripted_def say_def
          exited_ok_def s1)
    have w4: "w4 = fst (tryBase64Method ?R w3 (trim ?key))"
      using that by (simp add: w3_def w1_def)
    have m2: "tryBase64Method ?R w3 (trim ?key) = (w4, Inr MethodTrue)"
      by (simp add: w4 tryBase64Method_def execCommand_def scripted_def say_def
          exited_ok_def s3)
    note t = addPublicKeyToRemote_fallback [OF mk w2 m1 m2]
    from t show ?thesis by simp
  qed
  have third: "addPublicKeyToRemote (scripted []) ?w ?key =
      (say (LogError (''Error adding public key to remote: '' @ ''Not connected to server'')) w1,
       False)"
    if "w1 = fst (execCommand (scripted []) ?say mkdir_command)" for w1
  proof -
    let ?R = "scripted [] :: nat remote"
    have mk: "execCommand ?R ?say mkdir_command = (w1, Inl ''Not connected to server'')"
      by (simp add: that execCommand_def scripted_def say_def)
    have w2: "w1 = (case Inl ''Not connected to server'' :: string + exec_result of
                      Inl e \<Rightarrow> w1
                    | Inr mkdirResult \<Rightarrow>
                        if exited_ok mkdirResult then w1
                        else say (LogWarn (''mkdir result: '' @ stderr mkdirResult)) w1)"
      by simp
    note t = addPublicKeyToRemote_fallback [OF mk w2 surjective_pairing surjective_pairing]
    from t show ?thesis by simp
  qed
  show ?thesis
    using both [OF refl] second [OF refl] third [OF refl] by (simp add: tk)
qed

text \<open>
  Read for every session, the claim fails where \<open>execCommand\<close> rejects.  Here the
  directory command is answered, Method 1's append exits with code 2 and an error text,
  and the session then rejects Method 2's append.  The installer returns \<open>false\<close> and
  prints the message of the rejection; the standard error of Method 1 is nowhere in the
  output.
\<close>

theorem addPublicKeyToRemote_fallback_counterexample:
  "snd (addPublicKeyToRemote
          (scripted [\<lparr>code = Some 0, stdout = [], stderr = []\<rparr>,
                     \<lparr>code = Some 2, stdout = [], stderr = ''sh: syntax error''\<rparr>])
          \<lparr>cfg_store = \<lparr>config_file = None, keychain = Map.empty, delete_missing_raises = False\<rparr>,
             ssh = 0, trace = []\<rparr>
          ''ssh-rsa AAAA k'') = False \<and>
   trace (fst (addPublicKeyToRemote
          (scripted [\<lparr>code = Some 0, stdout = [], stderr = []\<rparr>,
                     \<lparr>code = Some 2, stdout = [], stderr = ''sh: syntax error''\<rparr>])
          \<lparr>cfg_store = \<lparr>config_file = None, keychain = Map.empty, delete_missing_raises = False\<rparr>,
             ssh = 0, trace = []\<rparr>
          ''ssh-rsa AAAA k'')) =
     [Log (LogInfo (CHR 0x0A # '' Adding public key to remote server...'')),
      Exec mkdir_command (Inr \<lparr>code = Some 0, stdout = [], stderr = []\<rparr>),
      Log (LogInfo ''   Attempting Method 1: Direct append with escaping...''),
      Exec (direct_command ''ssh-rsa AAAA k'')
        (Inr \<lparr>code = Some 2, stdout = [], stderr = ''sh: syntax error''\<rparr>),
      Log (LogWarn ''Method 1 failed, trying Method 2: Base64 encoding...''),
      Exec (base64_command ''ssh-rsa AAAA k'') (Inl ''Not connected to server''),
      Log (LogError ''Error adding public key to remote: Not connected to server'')]"
  by code_simp

section \<open>Properties of init\<close>

lemma exit_status_zero: "exit_status out = 0 \<longleftrightarrow> out = Done \<or> out = Canceled"
  by (cases out) simp_all

lemma store_adds_append: "store_adds (xs @ ys) = store_adds xs @ store_adds ys"
  by (induction xs rule: store_adds.induct) simp_all

lemma say_frame: "cfg_store (say l w) = cfg_store w" "store_adds (trace (say l w)) = store_adds (trace w)"
  by (simp_all add: say_def store_adds_append)

lemma execCommand_frame:
  assumes "execCommand remote w cmd = (w', r)"
  shows "cfg_store w' = cfg_store w \<and> store_adds (trace w') = store_adds (trace w)"
  using assms by (auto simp: execCommand_def store_adds_append split: prod.splits)

lemma tryDirectAppendMethod_frame:
  assumes "tryDirectAppendMethod remote w keyLine = (w', r)"
  shows "cfg_store w' = cfg_store w \<and> store_adds (trace w') = store_adds (trace w)"
  using assms
  by (auto simp: tryDirectAppendMethod_def say_frame
      split: prod.splits sum.splits if_splits dest!: execCommand_frame)

lemma tryBase64Method_frame:
  assumes "tryBase64Method remote w keyLine = (w', r)"
  shows "cfg_store w' = cfg_store w \<and> store_adds (trace w') = store_adds (trace w)"
  using assms
  by (auto simp: tryBase64Method_def say_frame
      split: prod.splits sum.splits if_splits dest!: execCommand_frame)

lemma addPublicKeyToRemote_frame:
  assumes "addPublicKeyToRemote remote w pubKeyContent = (w', installed)"
  shows "cfg_store w' = cfg_store w \<and> store_adds (trace w') = store_adds (trace w)"
  using assms
  by (auto simp: addPublicKeyToRemote_def install_caught_def say_frame Let_def
      split: prod.splits sum.splits if_splits method_result.splits
      dest!: execCommand_frame tryDirectAppendMethod_frame tryBase64Method_frame)

lemma emit_frame: "cfg_store (emit e w) = cfg_store w"
  by (simp add: emit_def)

lemma store_adds_emit:
  "store_adds (trace (emit e w)) = store_adds (trace w) @ store_adds [e]"
  by (simp add: emit_def store_adds_append)

lemma testSSHKeyAuthentication_frame:
  assumes "testSSHKeyAuthentication env w = (w', a)"
  shows "cfg_store w' = cfg_store w \<and> store_adds (trace w') = store_adds (trace w) \<and>
         (a = None \<longrightarrow> key_connect env = None \<and>
            trace w' = trace w @ [SshConnect WithPrivateKey None, Dispose])"
  using assms
  by (auto simp: testSSHKeyAuthentication_def say_frame emit_frame store_adds_append trace_emit
      split: sum.splits option.splits)

lemma ensure_key_frame:
  assumes "ensure_key env w = (w', generated)"
  shows "cfg_store w' = cfg_store w \<and> store_adds (trace w') = store_adds (trace w)"
  using assms
  by (auto simp: ensure_key_def Let_def say_frame emit_frame store_adds_emit
      split: option.splits if_splits)

lemma getPublicKeyContent_frame:
  assumes "getPublicKeyContent env w = (w', content)"
  shows "cfg_store w' = cfg_store w \<and> store_adds (trace w') = store_adds (trace w)"
  using assms by (auto simp: getPublicKeyContent_def say_frame split: sum.splits)

lemma setup_caught_frame:
  assumes "setup_caught w e = (out, w')"
  shows "out \<noteq> Done \<and> cfg_store w' = cfg_store w \<and> store_adds (trace w') = store_adds (trace w)"
  using assms by (auto simp: setup_caught_def say_frame)

lemma provision_not_done:
  assumes "provision name env w = (out, w')" and "out \<noteq> Done"
  shows "cfg_store w' = cfg_store w \<and> store_adds (trace w') = store_adds (trace w)"
  using assms
  by (auto simp: provision_def Let_def say_frame emit_frame store_adds_emit
      split: option.splits if_splits prod.splits sum.splits
      dest!: setup_caught_frame getPublicKeyContent_frame addPublicKeyToRemote_frame
        execCommand_frame testSSHKeyAuthentication_frame)

lemma provision_done:
  assumes "provision name env w = (Done, w')"
  shows "key_connect env = None \<and>
         store_adds (trace w') = store_adds (trace w) @ [name] \<and>
         (\<exists>pre. trace w' = pre @ [SshConnect WithPrivateKey None, Dispose, StoreAdd name])"
  using assms
  by (auto simp: provision_def Let_def say_frame emit_frame store_adds_append trace_emit
      addServer_step_def
      split: option.splits if_splits prod.splits sum.splits
      dest!: setup_caught_frame getPublicKeyContent_frame addPublicKeyToRemote_frame
        execCommand_frame testSSHKeyAuthentication_frame)

lemma init_setup_not_done:
  assumes "init_setup name env w = (out, w')" and "out \<noteq> Done"
  shows "cfg_store w' = cfg_store w \<and> store_adds (trace w') = store_adds (trace w)"
  using assms
  by (auto simp: init_setup_def Let_def say_frame emit_frame store_adds_emit
      split: prod.splits if_splits
      dest!: ensure_key_frame provision_not_done)

lemma init_setup_done:
  assumes "init_setup name env w = (Done, w')"
  shows "key_connect env = None \<and>
         store_adds (trace w') = store_adds (trace w) @ [name] \<and>
         (\<exists>pre. trace w' = pre @ [SshConnect WithPrivateKey None, Dispose, StoreAdd name])"
  using assms
  by (auto simp: init_setup_def Let_def say_frame emit_frame store_adds_emit
      split: prod.splits if_splits
      dest!: ensure_key_frame provision_done)

lemma removeServer_removes:
  assumes "removeServer st name = Inr st'"
  shows "map_of (loadConfig st') name = None"
  using assms
  by (auto simp: removeServer_def Let_def keytar_deletePassword_def saveConfig_def loadConfig_def
      map_of_js_delete split: option.splits if_splits sum.splits)

lemma removeServer_step_effect:
  assumes "removeServer_step name w = Inr w'"
  shows "map_of (loadConfig (cfg_store w')) name = None \<and>
         store_adds (trace w') = store_adds (trace w)"
  using assms
  by (auto simp: removeServer_step_def emit_frame store_adds_emit
      split: sum.splits dest: removeServer_removes)

lemma not_hasServer: "\<not> hasServer st name \<Longrightarrow> map_of (loadConfig st) name = None"
  by (simp add: hasServer_def split: option.splits)

lemma init_not_done:
  assumes "init name env w = (out, w')" and "out \<noteq> Done" and "out \<noteq> Canceled"
  shows "map_of (loadConfig (cfg_store w')) name = None \<and>
         store_adds (trace w') = store_adds (trace w)"
proof (cases "hasServer (cfg_store w) name")
  case False
  then have "init_setup name env w = (out, w')" using assms(1) by (simp add: init_def)
  from init_setup_not_done[OF this assms(2)] not_hasServer[OF False] show ?thesis by simp
next
  case True
  show ?thesis
  proof (cases "removeServer_step name (emit (Prompt ''replace'') w)")
    case (Inl e)
    then show ?thesis using assms True
      by (auto simp: init_def Let_def removeServer_step_def removeServer_def
          keytar_deletePassword_def split: if_splits sum.splits option.splits)
  next
    case (Inr w2)
    then have s: "init_setup name env w2 = (out, w')"
      using assms True by (auto simp: init_def Let_def split: if_splits)
    from removeServer_step_effect[OF Inr] init_setup_not_done[OF s assms(2)]
    show ?thesis by (simp add: store_adds_emit)
  qed
qed

lemma init_done:
  assumes "init name env w = (Done, w')"
  shows "key_connect env = None \<and>
         store_adds (trace w') = store_adds (trace w) @ [name] \<and>
         (\<exists>pre. trace w' = pre @ [SshConnect WithPrivateKey None, Dispose, StoreAdd name])"
proof (cases "hasServer (cfg_store w) name")
  case False
  then have "init_setup name env w = (Done, w')" using assms(1) by (simp add: init_def)
  from init_setup_done[OF this] show ?thesis .
next
  case True
  then obtain w2 where r: "removeServer_step name (emit (Prompt ''replace'') w) = Inr w2"
    and s: "init_setup name env w2 = (Done, w')"
    using assms by (auto simp: init_def Let_def split: if_splits sum.splits)
  from removeServer_step_effect[OF r] init_setup_done[OF s]
  show ?thesis by (simp add: store_adds_emit)
qed

lemma init_canceled:
  assumes "init name env w = (Canceled, w')"
  shows "cfg_store w' = cfg_store w \<and> store_adds (trace w') = store_adds (trace w)"
proof -
  have ns: "init_setup name env v \<noteq> (Canceled, w')" for v
    by (auto simp: init_setup_def provision_def setup_caught_def Let_def
        split: prod.splits if_splits option.splits sum.splits)
  show ?thesis using assms ns
    by (auto simp: init_def Let_def emit_frame store_adds_emit split: if_splits sum.splits)
qed

lemma exchanges_append: "exchanges (xs @ ys) = exchanges xs @ exchanges ys"
  by (induction xs rule: exchanges.induct) simp_all

lemma key_sessions_append: "key_sessions (xs @ ys) = key_sessions xs @ key_sessions ys"
  by (induction xs rule: key_sessions.induct) simp_all

lemma say_io:
  "exchanges (trace (say l w)) = exchanges (trace w)"
  "key_sessions (trace (say l w)) = key_sessions (trace w)"
  by (simp_all add: say_def exchanges_append key_sessions_append)

lemma emit_io:
  "exchanges (trace (emit e w)) = exchanges (trace w) @ exchanges [e]"
  "key_sessions (trace (emit e w)) = key_sessions (trace w) @ key_sessions [e]"
  by (simp_all add: emit_def exchanges_append key_sessions_append)

lemma execCommand_io:
  assumes "execCommand remote w cmd = (w', r)"
  shows "key_sessions (trace w') = key_sessions (trace w) \<and>
         exchanges (trace w') = exchanges (trace w) @ [(cmd, r)]"
  using assms
  by (auto simp: execCommand_def exchanges_append key_sessions_append split: prod.splits)

lemma tryDirectAppendMethod_io:
  assumes "tryDirectAppendMethod remote w keyLine = (w', result1)"
  shows "key_sessions (trace w') = key_sessions (trace w) \<and>
         (\<exists>r rest. exchanges (trace w') =
                      exchanges (trace w) @ (direct_command keyLine, r) # rest \<and>
            (result1 = Inr MethodTrue \<longrightarrow> (\<exists>r1. r = Inr r1 \<and> exited_ok r1)) \<and>
            (\<forall>e. result1 = Inr (MethodFailed e) \<longrightarrow>
               rest = [] \<and> (\<exists>r1. r = Inr r1 \<and> \<not> exited_ok r1)))"
  using assms
  by (auto simp: tryDirectAppendMethod_def say_io
      split: prod.splits sum.splits if_splits dest!: execCommand_io)

lemma tryBase64Method_io:
  assumes "tryBase64Method remote w keyLine = (w', result2)"
  shows "key_sessions (trace w') = key_sessions (trace w) \<and>
         (\<exists>r rest. exchanges (trace w') =
                      exchanges (trace w) @ (base64_command keyLine, r) # rest \<and>
            (result2 = Inr MethodTrue \<longrightarrow>
               (\<exists>r2 rc. r = Inr r2 \<and> exited_ok r2 \<and> rest = [(chmod_command, Inr rc)])) \<and>
            (\<forall>e. result2 = Inr (MethodFailed e) \<longrightarrow>
               rest = [] \<and> (\<exists>r2. r = Inr r2 \<and> \<not> exited_ok r2)))"
  using assms
  by (auto simp: tryBase64Method_def say_io
      split: prod.splits sum.splits if_splits dest!: execCommand_io)

lemma addPublicKeyToRemote_key_sessions:
  assumes "addPublicKeyToRemote remote w pubKeyContent = (w', installed)"
  shows "key_sessions (trace w') = key_sessions (trace w)"
  using assms
  by (auto simp: addPublicKeyToRemote_def install_caught_def say_io Let_def
      split: prod.splits sum.splits if_splits method_result.splits
      dest!: execCommand_io tryDirectAppendMethod_io tryBase64Method_io)

text \<open>
  What the session answered in a run of the installer that returns \<open>true\<close>: the literal
  append exited with success, or it was followed by the base64 append and that one
  exited with success.
\<close>

lemma addPublicKeyToRemote_true:
  assumes "addPublicKeyToRemote remote w pubKeyContent = (w', True)"
  shows "\<exists>r0 r1 rest.
           exchanges (trace w') =
             exchanges (trace w) @
             (mkdir_command, r0) # (direct_command (trim pubKeyContent), Inr r1) # rest \<and>
           (exited_ok r1 \<or>
            (\<exists>r2 rc rest'.
               rest = (base64_command (trim pubKeyContent), Inr r2) #
                      (chmod_command, Inr rc) # rest' \<and>
               exited_ok r2))"
proof -
  obtain w1 r0 where mk: "execCommand remote
      (say (LogInfo (CHR 0x0A # '' Adding public key to remote server...'')) w)
      mkdir_command = (w1, r0)"
    by (cases "execCommand remote
      (say (LogInfo (CHR 0x0A # '' Adding public key to remote server...'')) w)
      mkdir_command") auto
  define w2 where "w2 = (case r0 of
                     Inl e \<Rightarrow> w1
                   | Inr mkdirResult \<Rightarrow>
                       if exited_ok mkdirResult then w1
                       else say (LogWarn (''mkdir result: '' @ stderr mkdirResult)) w1)"
  obtain w3 result1 where m1: "tryDirectAppendMethod remote w2 (trim pubKeyContent) = (w3, result1)"
    by (cases "tryDirectAppendMethod remote w2 (trim pubKeyContent)") auto
  obtain w4 result2 where m2: "tryBase64Method remote w3 (trim pubKeyContent) = (w4, result2)"
    by (cases "tryBase64Method remote w3 (trim pubKeyContent)") auto
  have e2: "exchanges (trace w2) = exchanges (trace w) @ [(mkdir_command, r0)]"
    using execCommand_io[OF mk] by (simp add: w2_def say_io split: sum.splits)
  obtain x1 rest1 where
    e3: "exchanges (trace w3) =
           exchanges (trace w2) @ (direct_command (trim pubKeyContent), x1) # rest1"
    and e3t: "result1 = Inr MethodTrue \<longrightarrow> (\<exists>r1. x1 = Inr r1 \<and> exited_ok r1)"
    and e3f: "\<forall>e. result1 = Inr (MethodFailed e) \<longrightarrow>
               rest1 = [] \<and> (\<exists>r1. x1 = Inr r1 \<and> \<not> exited_ok r1)"
    using tryDirectAppendMethod_io[OF m1] by (elim conjE exE) (rule that)
  obtain x2 rest2 where
    e4: "exchanges (trace w4) =
           exchanges (trace w3) @ (base64_command (trim pubKeyContent), x2) # rest2"
    and e4t: "result2 = Inr MethodTrue \<longrightarrow>
               (\<exists>r2 rc. x2 = Inr r2 \<and> exited_ok r2 \<and> rest2 = [(chmod_command, Inr rc)])"
    using tryBase64Method_io[OF m2] by (elim conjE exE) (rule that)
  have cases: "(result1 = Inr MethodTrue \<and> w' = w3) \<or>
      ((\<exists>e. result1 = Inr (MethodFailed e)) \<and> result2 = Inr MethodTrue \<and> w' = w4)"
    using assms mk m1 m2
    by (auto simp: addPublicKeyToRemote_def install_caught_def Let_def w2_def
        split: sum.splits method_result.splits if_splits)
  then show ?thesis
  proof
    assume a: "result1 = Inr MethodTrue \<and> w' = w3"
    with e3t obtain r1 where "x1 = Inr r1" "exited_ok r1" by blast
    with a e2 e3 show ?thesis
      by (intro exI[of _ r0] exI[of _ r1] exI[of _ rest1]) simp
  next
    assume a: "(\<exists>e. result1 = Inr (MethodFailed e)) \<and> result2 = Inr MethodTrue \<and> w' = w4"
    with e3f obtain r1 where r1: "x1 = Inr r1" "rest1 = []" by blast
    from a e4t obtain r2 rc where
      r2: "x2 = Inr r2" "exited_ok r2" "rest2 = [(chmod_command, Inr rc)]" by blast
    have "exchanges (trace w') =
        exchanges (trace w) @
        (mkdir_command, r0) # (direct_command (trim pubKeyContent), Inr r1) #
        (base64_command (trim pubKeyContent), Inr r2) # [(chmod_command, Inr rc)]"
      using a e2 e3 e4 r1 r2 by simp
    with r2 show ?thesis
      by (intro exI[of _ r0] exI[of _ r1]
          exI[of _ "(base64_command (trim pubKeyContent), Inr r2) #
                    [(chmod_command, Inr rc)]"]) simp
  qed
qed

lemma testSSHKeyAuthentication_io:
  assumes "testSSHKeyAuthentication env w = (w', a)"
  shows "exchanges (trace w') = exchanges (trace w) \<and>
         (a = None \<longrightarrow> key_sessions (trace w') = key_sessions (trace w) @ [None])"
  using assms
  by (auto simp: testSSHKeyAuthentication_def say_io emit_io split: sum.splits option.splits)

lemma ensure_key_io:
  assumes "ensure_key env w = (w', generated)"
  shows "exchanges (trace w') = exchanges (trace w) \<and>
         key_sessions (trace w') = key_sessions (trace w)"
  using assms
  by (auto simp: ensure_key_def Let_def say_io emit_io split: option.splits if_splits)

lemma getPublicKeyContent_io:
  assumes "getPublicKeyContent env w = (w', content)"
  shows "exchanges (trace w') = exchanges (trace w) \<and>
         key_sessions (trace w') = key_sessions (trace w)"
  using assms by (auto simp: getPublicKeyContent_def say_io split: sum.splits)

text \<open>
  A run that ends with the record written has installed the key (by the first method,
  or by the second after the first failed) and has then opened a key-authenticated
  session that was accepted.
\<close>

lemma provision_done_io:
  assumes "provision name env w = (Done, w')"
  shows "key_sessions (trace w') = key_sessions (trace w) @ [None] \<and>
         (\<exists>k r0 r1 rest.
            exchanges (trace w') =
              exchanges (trace w) @ (mkdir_command, r0) # (direct_command k, Inr r1) # rest \<and>
            (exited_ok r1 \<or>
             (\<exists>r2 rc rest'.
                rest = (base64_command k, Inr r2) # (chmod_command, Inr rc) # rest' \<and>
                exited_ok r2)))"
proof -
  from assms obtain w2 content w3 w4 permResult w5 where
    pc: "password_connect env = None"
    and g: "getPublicKeyContent env (emit (SshConnect WithPassword None) w) = (w2, content)"
    and i: "addPublicKeyToRemote (remote_exec env) w2 (show_undefined content) = (w3, True)"
    and x: "execCommand (remote_exec env) w3 config_test_command = (w4, Inr permResult)"
    and t: "testSSHKeyAuthentication env (emit Dispose w4) = (w5, None)"
    and a: "w' = addServer_step name
                   \<lparr>host = Some (host_answer env), user = Some (user_answer env),
                      port = Some (port_or_22 (Some (port_answer env))),
                      authType = Some ''key'', keyPath = Some ''~/.ssh/id_rsa'',
                      passphrase = None, other = []\<rparr> w5"
    by (auto simp: provision_def Let_def setup_caught_def
        split: option.splits if_splits prod.splits sum.splits)
  have k2: "key_sessions (trace w2) = key_sessions (trace w)"
    and e2: "exchanges (trace w2) = exchanges (trace w)"
    using getPublicKeyContent_io[OF g] by (simp_all add: emit_io)
  have k3: "key_sessions (trace w3) = key_sessions (trace w)"
    using addPublicKeyToRemote_key_sessions[OF i] k2 by simp
  have k4: "key_sessions (trace w4) = key_sessions (trace w)"
    and e4: "exchanges (trace w4) = exchanges (trace w3) @ [(config_test_command, Inr permResult)]"
    using execCommand_io[OF x] k3 by simp_all
  have k5: "key_sessions (trace w5) = key_sessions (trace w) @ [None]"
    and e5: "exchanges (trace w5) = exchanges (trace w4)"
    using testSSHKeyAuthentication_io[OF t] k4 by (simp_all add: emit_io)
  have k: "key_sessions (trace w') = key_sessions (trace w) @ [None]"
    and e: "exchanges (trace w') = exchanges (trace w3) @ [(config_test_command, Inr permResult)]"
    using k5 e5 e4 by (simp_all add: a addServer_step_def emit_io)
  from addPublicKeyToRemote_true[OF i] obtain r0 r1 rest where
    e3: "exchanges (trace w3) =
           exchanges (trace w2) @
           (mkdir_command, r0) # (direct_command (trim (show_undefined content)), Inr r1) # rest"
    and ok: "exited_ok r1 \<or>
            (\<exists>r2 rc rest'.
               rest = (base64_command (trim (show_undefined content)), Inr r2) #
                      (chmod_command, Inr rc) # rest' \<and>
               exited_ok r2)"
    by (elim conjE exE) (rule that)
  have e': "exchanges (trace w') =
      exchanges (trace w) @
      (mkdir_command, r0) # (direct_command (trim (show_undefined content)), Inr r1) #
      (rest @ [(config_test_command, Inr permResult)])"
    using e e3 e2 by simp
  have ok': "exited_ok r1 \<or>
      (\<exists>r2 rc rest'. rest @ [(config_test_command, Inr permResult)] =
                     (base64_command (trim (show_undefined content)), Inr r2) #
                     (chmod_command, Inr rc) # rest' \<and>
                   exited_ok r2)"
    using ok by auto
  from e' ok' k show ?thesis
    by (intro conjI exI[of _ "trim (show_undefined content)"] exI[of _ r0] exI[of _ r1]
        exI[of _ "rest @ [(config_test_command, Inr permResult)]"]) simp_all
qed

lemma init_setup_done_io:
  assumes "init_setup name env w = (Done, w')"
  shows "key_sessions (trace w') = key_sessions (trace w) @ [None] \<and>
         (\<exists>k r0 r1 rest.
            exchanges (trace w') =
              exchanges (trace w) @ (mkdir_command, r0) # (direct_command k, Inr r1) # rest \<and>
            (exited_ok r1 \<or>
             (\<exists>r2 rc rest'.
                rest = (base64_command k, Inr r2) # (chmod_command, Inr rc) # rest' \<and>
                exited_ok r2)))"
proof -
  from assms obtain w1 generated where
    k: "ensure_key env (emit (Prompt ''host, user, port'') w) = (w1, generated)"
    and p: "provision name env (emit (Prompt ''password'') w1) = (Done, w')"
    by (auto simp: init_setup_def Let_def split: prod.splits if_splits)
  have "key_sessions (trace (emit (Prompt ''password'') w1)) = key_sessions (trace w)"
    and "exchanges (trace (emit (Prompt ''password'') w1)) = exchanges (trace w)"
    using ensure_key_io[OF k] by (simp_all add: emit_io)
  with provision_done_io[OF p] show ?thesis by simp
qed

lemma removeServer_step_io:
  assumes "removeServer_step name w = Inr w'"
  shows "exchanges (trace w') = exchanges (trace w) \<and>
         key_sessions (trace w') = key_sessions (trace w)"
  using assms by (auto simp: removeServer_step_def emit_io split: sum.splits)

lemma init_done_io:
  assumes "init name env w = (Done, w')"
  shows "key_sessions (trace w') = key_sessions (trace w) @ [None] \<and>
         (\<exists>k r0 r1 rest.
            exchanges (trace w') =
              exchanges (trace w) @ (mkdir_command, r0) # (direct_command k, Inr r1) # rest \<and>
            (exited_ok r1 \<or>
             (\<exists>r2 rc rest'.
                rest = (base64_command k, Inr r2) # (chmod_command, Inr rc) # rest' \<and>
                exited_ok r2)))"
proof (cases "hasServer (cfg_store w) name")
  case False
  then have "init_setup name env w = (Done, w')" using assms by (simp add: init_def)
  from init_setup_done_io[OF this] show ?thesis .
next
  case True
  then obtain w2 where r: "removeServer_step name (emit (Prompt ''replace'') w) = Inr w2"
    and s: "init_setup name env w2 = (Done, w')"
    using assms by (auto simp: init_def Let_def split: if_splits sum.splits)
  have "key_sessions (trace w2) = key_sessions (trace w)"
    and "exchanges (trace w2) = exchanges (trace w)"
    using removeServer_step_io[OF r] by (simp_all add: emit_io)
  with init_setup_done_io[OF s] show ?thesis by simp
qed

lemma init_canceled_io:
  assumes "init name env w = (Canceled, w')"
  shows "exchanges (trace w') = exchanges (trace w) \<and>
         key_sessions (trace w') = key_sessions (trace w)"
proof -
  have ns: "init_setup name env v \<noteq> (Canceled, w')" for v
    by (auto simp: init_setup_def provision_def setup_caught_def Let_def
        split: prod.splits if_splits option.splits sum.splits)
  show ?thesis using assms ns
    by (auto simp: init_def Let_def emit_io split: if_splits sum.splits)
qed

text \<open>
  Claim C2.  The trace of a run records every remote command with the answer of the
  session, and every key-authenticated session with its result.  Take a run of \<open>init\<close>
  for an alias in which
  \<^item> both installer methods fail: after the directory command, the literal append of
    Method 1 was answered with a non-zero exit code, and Method 2, attempted next, did
    not succeed either (its base64 append was rejected, or was answered with a non-zero
    exit code, or the \<open>chmod\<close> that follows a successful append was rejected); or
  \<^item> the verification fails: the key-authenticated session that the run opened was
    refused with an error.

  Then the store holds no entry for the alias afterwards (neither \<open>getServer\<close> nor
  \<open>listServers\<close> shows it) and the run has added nothing to the store.  Conversely, a
  run that adds to the store has returned normally, the key-authenticated session it
  opened was accepted, and it was opened and closed immediately before the single
  \<open>addServer\<close>, which is the last thing the run does.
\<close>

theorem init_all_or_nothing:
  assumes "init name env w = (out, w')"
  shows "((\<exists>k r0 r1 x2 rest.
             exchanges (trace w') =
               exchanges (trace w) @
               (mkdir_command, r0) # (direct_command k, Inr r1) #
               (base64_command k, x2) # rest \<and>
             \<not> exited_ok r1 \<and>
             (case x2 of
                Inl e \<Rightarrow> True
              | Inr r2 \<Rightarrow>
                  \<not> exited_ok r2 \<or> (\<exists>e rest'. rest = (chmod_command, Inl e) # rest'))) \<or>
          (\<exists>m. key_sessions (trace w') = key_sessions (trace w) @ [Some m]) \<longrightarrow>
            getServer (cfg_store w') name = None \<and>
            name \<notin> set (listServers (cfg_store w')) \<and>
            store_adds (trace w') = store_adds (trace w)) \<and>
         (store_adds (trace w') \<noteq> store_adds (trace w) \<longrightarrow>
            out = Done \<and>
            key_sessions (trace w') = key_sessions (trace w) @ [None] \<and>
            (\<exists>pre. trace w' = pre @ [SshConnect WithPrivateKey None, Dispose, StoreAdd name]))"
proof (intro conjI impI)
  assume a: "(\<exists>k r0 r1 x2 rest.
             exchanges (trace w') =
               exchanges (trace w) @
               (mkdir_command, r0) # (direct_command k, Inr r1) #
               (base64_command k, x2) # rest \<and>
             \<not> exited_ok r1 \<and>
             (case x2 of
                Inl e \<Rightarrow> True
              | Inr r2 \<Rightarrow>
                  \<not> exited_ok r2 \<or> (\<exists>e rest'. rest = (chmod_command, Inl e) # rest'))) \<or>
          (\<exists>m. key_sessions (trace w') = key_sessions (trace w) @ [Some m])"
  have nd: "out \<noteq> Done"
  proof
    assume d: "out = Done"
    from init_done_io[of name env w w'] assms d
    have k: "key_sessions (trace w') = key_sessions (trace w) @ [None]"
      and e: "\<exists>k r0 r1 rest.
            exchanges (trace w') =
              exchanges (trace w) @ (mkdir_command, r0) # (direct_command k, Inr r1) # rest \<and>
            (exited_ok r1 \<or>
             (\<exists>r2 rc rest'.
                rest = (base64_command k, Inr r2) # (chmod_command, Inr rc) # rest' \<and>
                exited_ok r2))"
      by simp_all
    from a show False
    proof
      assume "\<exists>m. key_sessions (trace w') = key_sessions (trace w) @ [Some m]"
      with k show False by simp
    next
      assume "\<exists>k r0 r1 x2 rest.
             exchanges (trace w') =
               exchanges (trace w) @
               (mkdir_command, r0) # (direct_command k, Inr r1) #
               (base64_command k, x2) # rest \<and>
             \<not> exited_ok r1 \<and>
             (case x2 of
                Inl e \<Rightarrow> True
              | Inr r2 \<Rightarrow>
                  \<not> exited_ok r2 \<or> (\<exists>e rest'. rest = (chmod_command, Inl e) # rest'))"
      then obtain k r0 r1 x2 rest where
        x: "exchanges (trace w') =
               exchanges (trace w) @
               (mkdir_command, r0) # (direct_command k, Inr r1) #
               (base64_command k, x2) # rest"
        and n1: "\<not> exited_ok r1"
        and n2: "case x2 of
                Inl e \<Rightarrow> True
              | Inr r2 \<Rightarrow>
                  \<not> exited_ok r2 \<or> (\<exists>e rest'. rest = (chmod_command, Inl e) # rest')"
        by (elim conjE exE) (rule that)
      from e obtain k' r0' r1' rest' where
        y: "exchanges (trace w') =
              exchanges (trace w) @ (mkdir_command, r0') # (direct_command k', Inr r1') # rest'"
        and ok: "exited_ok r1' \<or>
             (\<exists>r2' rc rest''.
                rest' = (base64_command k', Inr r2') # (chmod_command, Inr rc) # rest'' \<and>
                exited_ok r2')"
        by (elim conjE exE) (rule that)
      from x y have r1: "r1' = r1" and rest: "rest' = (base64_command k, x2) # rest"
        by simp_all
      from ok r1 rest n1 n2 show False by auto
    qed
  qed
  have nc: "out \<noteq> Canceled"
  proof
    assume c: "out = Canceled"
    from init_canceled_io[of name env w w'] assms c a show False by simp
  qed
  from init_not_done[OF assms nd nc]
  have m: "map_of (loadConfig (cfg_store w')) name = None"
    and t: "store_adds (trace w') = store_adds (trace w)" by simp_all
  show "getServer (cfg_store w') name = None" using m by (simp add: getServer_def)
  show "name \<notin> set (listServers (cfg_store w'))"
    using m by (simp add: listServers_def map_of_eq_None_iff)
  show "store_adds (trace w') = store_adds (trace w)" by (rule t)
next
  assume c: "store_adds (trace w') \<noteq> store_adds (trace w)"
  have d: "out = Done"
  proof (rule ccontr)
    assume nd: "out \<noteq> Done"
    show False
    proof (cases "out = Canceled")
      case True
      with assms init_canceled[of name env w w'] c show False by simp
    next
      case False
      with init_not_done[OF assms nd] c show False by simp
    qed
  qed
  then show "out = Done" .
  from d assms init_done_io[of name env w w']
  show "key_sessions (trace w') = key_sessions (trace w) @ [None]" by simp
  from d assms init_done[of name env w w']
  show "\<exists>pre. trace w' = pre @ [SshConnect WithPrivateKey None, Dispose, StoreAdd name]" by simp
qed

theorem init_all_or_nothing_witness:
  "exchanges (trace (snd (init ''web0''
          \<lparr>replace_answer = True, host_answer = ''203.0.113.10'', user_answer = ''deploy'',
             port_answer = PNum 22, password_answer = ''secret'', private_key_present = True,
             keygen_error = None, password_connect = None,
             public_key_read = Inr (Some ''ssh-rsa AAAA k''),
             remote_exec = scripted
               [\<lparr>code = Some 0, stdout = [], stderr = []\<rparr>,
                \<lparr>code = Some 2, stdout = [], stderr = ''sh: syntax error''\<rparr>,
                \<lparr>code = Some 127, stdout = [], stderr = ''sh: base64: not found''\<rparr>],
             private_key_read = Inr ''PRIVATE KEY'', key_connect = None\<rparr>
          \<lparr>cfg_store = \<lparr>config_file = Some [(''web0'',
               \<lparr>host = Some ''203.0.113.10'', user = Some ''deploy'', port = None,
                  authType = Some ''key'', keyPath = Some ''~/.ssh/id_rsa'', passphrase = None,
                  other = []\<rparr>)],
             keychain = Map.empty, delete_missing_raises = False\<rparr>,
             ssh = 0, trace = []\<rparr>))) =
     [(mkdir_command, Inr \<lparr>code = Some 0, stdout = [], stderr = []\<rparr>),
      (direct_command ''ssh-rsa AAAA k'',
       Inr \<lparr>code = Some 2, stdout = [], stderr = ''sh: syntax error''\<rparr>),
      (base64_command ''ssh-rsa AAAA k'',
       Inr \<lparr>code = Some 127, stdout = [], stderr = ''sh: base64: not found''\<rparr>)] \<and>
   getServer (cfg_store (snd (init ''web0''
          \<lparr>replace_answer = True, host_answer = ''203.0.113.10'', user_answer = ''deploy'',
             port_answer = PNum 22, password_answer = ''secret'', private_key_present = True,
             keygen_error = None, password_connect = None,
             public_key_read = Inr (Some ''ssh-rsa AAAA k''),
             remote_exec = scripted
               [\<lparr>code = Some 0, stdout = [], stderr = []\<rparr>,
                \<lparr>code = Some 2, stdout = [], stderr = ''sh: syntax error''\<rparr>,
                \<lparr>code = Some 127, stdout = [], stderr = ''sh: base64: not found''\<rparr>],
             private_key_read = Inr ''PRIVATE KEY'', key_connect = None\<rparr>
          \<lparr>cfg_store = \<lparr>config_file = Some [(''web0'',
               \<lparr>host = Some ''203.0.113.10'', user = Some ''deploy'', port = None,
                  authType = Some ''key'', keyPath = Some ''~/.ssh/id_rsa'', passphrase = None,
                  other = []\<rparr>)],
             keychain = Map.empty, delete_missing_raises = False\<rparr>,
             ssh = 0, trace = []\<rparr>))) ''web0'' = None \<and>
   key_sessions (trace (snd (init ''web1''
          \<lparr>replace_answer = False, host_answer = ''203.0.113.10'', user_answer = ''deploy'',
             port_answer = PNum 22, password_answer = ''secret'', private_key_present = True,
             keygen_error = None, password_connect = None,
             public_key_read = Inr (Some ''ssh-rsa AAAA k''),
             remote_exec = scripted
               [\<lparr>code = Some 0, stdout = [], stderr = []\<rparr>,
                \<lparr>code = Some 0, stdout = [], stderr = []\<rparr>,
                \<lparr>code = Some 0, stdout = [], stderr = []\<rparr>,
                \<lparr>code = Some 0, stdout = ''OK'', stderr = []\<rparr>],
             private_key_read = Inr ''PRIVATE KEY'',
             key_connect = Some ''All configured authentication methods failed''\<rparr>
          \<lparr>cfg_store = \<lparr>config_file = None, keychain = Map.empty,
               delete_missing_raises = False\<rparr>,
             ssh = 0, trace = []\<rparr>))) =
     [Some ''All configured authentication methods failed''] \<and>
   getServer (cfg_store (snd (init ''web1''
          \<lparr>replace_answer = False, host_answer = ''203.0.113.10'', user_answer = ''deploy'',
             port_answer = PNum 22, password_answer = ''secret'', private_key_present = True,
             keygen_error = None, password_connect = None,
             public_key_read = Inr (Some ''ssh-rsa AAAA k''),
             remote_exec = scripted
               [\<lparr>code = Some 0, stdout = [], stderr = []\<rparr>,
                \<lparr>code = Some 0, stdout = [], stderr = []\<rparr>,
                \<lparr>code = Some 0, stdout = [], stderr = []\<rparr>,
                \<lparr>code = Some 0, stdout = ''OK'', stderr = []\<rparr>],
             private_key_read = Inr ''PRIVATE KEY'',
             key_connect = Some ''All configured authentication methods failed''\<rparr>
          \<lparr>cfg_store = \<lparr>config_file = None, keychain = Map.empty,
               delete_missing_raises = False\<rparr>,
             ssh = 0, trace = []\<rparr>))) ''web1'' = None \<and>
   store_adds (trace (snd (init ''web1''
          \<lparr>replace_answer = False, host_answer = ''203.0.113.10'', user_answer = ''deploy'',
             port_answer = PNum 22, password_answer = ''secret'', private_key_present = True,
             keygen_error = None, password_connect = None,
             public_key_read = Inr (Some ''ssh-rsa AAAA k''),
             remote_exec = scripted
               [\<lparr>code = Some 0, stdout = [], stderr = []\<rparr>,
                \<lparr>code = Some 0, stdout = [], stderr = []\<rparr>,
                \<lparr>code = Some 0, stdout = [], stderr = []\<rparr>,
                \<lparr>code = Some 0, stdout = ''OK'', stderr = []\<rparr>],
             private_key_read = Inr ''PRIVATE KEY'', key_connect = None\<rparr>
          \<lparr>cfg_store = \<lparr>config_file = None, keychain = Map.empty,
               delete_missing_raises = False\<rparr>,
             ssh = 0, trace = []\<rparr>))) = [''web1''] \<and>
   fst (init ''web1''
          \<lparr>replace_answer = False, host_answer = ''203.0.113.10'', user_answer = ''deploy'',
             port_answer = PNum 22, password_answer = ''secret'', private_key_present = True,
             keygen_error = None, password_connect = None,
             public_key_read = Inr (Some ''ssh-rsa AAAA k''),
             remote_exec = scripted
               [\<lparr>code = Some 0, stdout = [], stderr = []\<rparr>,
                \<lparr>code = Some 0, stdout = [], stderr = []\<rparr>,
                \<lparr>code = Some 0, stdout = [], stderr = []\<rparr>,
                \<lparr>code = Some 0, stdout = ''OK'', stderr = []\<rparr>],
             private_key_read = Inr ''PRIVATE KEY'', key_connect = None\<rparr>
          \<lparr>cfg_store = \<lparr>config_file = None, keychain = Map.empty,
               delete_missing_raises = False\<rparr>,
             ssh = 0, trace = []\<rparr>) = Done \<and>
   key_sessions (trace (snd (init ''web1''
          \<lparr>replace_answer = False, host_answer = ''203.0.113.10'', user_answer = ''deploy'',
             port_answer = PNum 22, password_answer = ''secret'', private_key_present = True,
             keygen_error = None, password_connect = None,
             public_key_read = Inr (Some ''ssh-rsa AAAA k''),
             remote_exec = scripted
               [\<lparr>code = Some 0, stdout = [], stderr = []\<rparr>,
                \<lparr>code = Some 0, stdout = [], stderr = []\<rparr>,
                \<lparr>code = Some 0, stdout = [], stderr = []\<rparr>,
                \<lparr>code = Some 0, stdout = ''OK'', stderr = []\<rparr>],
             private_key_read = Inr ''PRIVATE KEY'', key_connect = None\<rparr>
          \<lparr>cfg_store = \<lparr>config_file = None, keychain = Map.empty,
               delete_missing_raises = False\<rparr>,
             ssh = 0, trace = []\<rparr>))) = [None]"
proof -
  let ?ok = "\<lparr>code = Some 0, stdout = [], stderr = []\<rparr>"
  let ?f1 = "\<lparr>code = Some 2, stdout = [], stderr = ''sh: syntax error''\<rparr>"
  let ?f2 = "\<lparr>code = Some 127, stdout = [], stderr = ''sh: base64: not found''\<rparr>"
  let ?envA = "\<lparr>replace_answer = True, host_answer = ''203.0.113.10'', user_answer = ''deploy'',
             port_answer = PNum 22, password_answer = ''secret'', private_key_present = True,
             keygen_error = None, password_connect = None,
             public_key_read = Inr (Some ''ssh-rsa AAAA k''),
             remote_exec = scripted [?ok, ?f1, ?f2],
             private_key_read = Inr ''PRIVATE KEY'', key_connect = None\<rparr>"
  let ?wA = "\<lparr>cfg_store = \<lparr>config_file = Some [(''web0'',
               \<lparr>host = Some ''203.0.113.10'', user = Some ''deploy'', port = None,
                  authType = Some ''key'', keyPath = Some ''~/.ssh/id_rsa'', passphrase = None,
                  other = []\<rparr>)],
             keychain = Map.empty, delete_missing_raises = False\<rparr>,
             ssh = 0 :: nat, trace = []\<rparr>"
  let ?envB = "\<lparr>replace_answer = False, host_answer = ''203.0.113.10'', user_answer = ''deploy'',
             port_answer = PNum 22, password_answer = ''secret'', private_key_present = True,
             keygen_error = None, password_connect = None,
             public_key_read = Inr (Some ''ssh-rsa AAAA k''),
             remote_exec = scripted
               [?ok, ?ok, ?ok, \<lparr>code = Some 0, stdout = ''OK'', stderr = []\<rparr>],
             private_key_read = Inr ''PRIVATE KEY'',
             key_connect = Some ''All configured authentication methods failed''\<rparr>"
  let ?envC = "\<lparr>replace_answer = False, host_answer = ''203.0.113.10'', user_answer = ''deploy'',
             port_answer = PNum 22, password_answer = ''secret'', private_key_present = True,
             keygen_error = None, password_connect = None,
             public_key_read = Inr (Some ''ssh-rsa AAAA k''),
             remote_exec = scripted
               [?ok, ?ok, ?ok, \<lparr>code = Some 0, stdout = ''OK'', stderr = []\<rparr>],
             private_key_read = Inr ''PRIVATE KEY'', key_connect = None\<rparr>"
  let ?wB = "\<lparr>cfg_store = \<lparr>config_file = None, keychain = Map.empty,
               delete_missing_raises = False\<rparr>,
             ssh = 0 :: nat, trace = []\<rparr>"
  have xa: "exchanges (trace (snd (init ''web0'' ?envA ?wA))) =
      [(mkdir_command, Inr ?ok), (direct_command ''ssh-rsa AAAA k'', Inr ?f1),
       (base64_command ''ssh-rsa AAAA k'', Inr ?f2)]"
    by code_simp
  have kb: "key_sessions (trace (snd (init ''web1'' ?envB ?wB))) =
      [Some ''All configured authentication methods failed'']"
    by code_simp
  have sc: "store_adds (trace (snd (init ''web1'' ?envC ?wB))) = [''web1'']"
    by code_simp
  have ha: "\<exists>k r0 r1 x2 rest.
      exchanges (trace (snd (init ''web0'' ?envA ?wA))) =
        exchanges (trace ?wA) @
        (mkdir_command, r0) # (direct_command k, Inr r1) # (base64_command k, x2) # rest \<and>
      \<not> exited_ok r1 \<and>
      (case x2 of
         Inl e \<Rightarrow> True
       | Inr r2 \<Rightarrow> \<not> exited_ok r2 \<or> (\<exists>e rest'. rest = (chmod_command, Inl e) # rest'))"
    unfolding xa
    apply (rule exI[of _ "''ssh-rsa AAAA k''"])
    apply (rule exI[of _ "Inr ?ok"])
    apply (rule exI[of _ ?f1])
    apply (rule exI[of _ "Inr ?f2"])
    apply (rule exI[of _ "[]"])
    apply (simp add: exited_ok_def)
    done
  have hb: "\<exists>m. key_sessions (trace (snd (init ''web1'' ?envB ?wB))) =
      key_sessions (trace ?wB) @ [Some m]"
    unfolding kb by simp
  have hc: "store_adds (trace (snd (init ''web1'' ?envC ?wB))) \<noteq> store_adds (trace ?wB)"
    unfolding sc by simp
  note ta = init_all_or_nothing [OF surjective_pairing, of "''web0''" ?envA ?wA]
  note tb = init_all_or_nothing [OF surjective_pairing, of "''web1''" ?envB ?wB]
  note tc = init_all_or_nothing [OF surjective_pairing, of "''web1''" ?envC ?wB]
  note ca = ta [THEN conjunct1, THEN mp, OF disjI1, OF ha, THEN conjunct1]
  note cb = tb [THEN conjunct1, THEN mp, OF disjI2, OF hb, THEN conjunct1]
  note cc = tc [THEN conjunct2, THEN mp, OF hc]
  have dc: "fst (init ''web1'' ?envC ?wB) = Done"
    and kc: "key_sessions (trace (snd (init ''web1'' ?envC ?wB))) = [None]"
    using cc by simp_all
  show ?thesis using xa ca kb cb sc dc kc by simp
qed





text \<open>
  The condition on the alias is needed: with the entered host and user stored under the
  empty alias, no conflict is reported and the run goes on to write a second record.
\<close>

lemma empty_alias_not_reported:
  "fst (init ''web1''
          \<lparr>replace_answer = False, host_answer = ''203.0.113.10'', user_answer = ''deploy'',
             port_answer = PNum 22, password_answer = ''secret'', private_key_present = True,
             keygen_error = None, password_connect = None,
             public_key_read = Inr (Some ''ssh-rsa AAAA k''),
             remote_exec = scripted
               [\<lparr>code = Some 0, stdout = [], stderr = []\<rparr>,
                \<lparr>code = Some 0, stdout = [], stderr = []\<rparr>,
                \<lparr>code = Some 0, stdout = [], stderr = []\<rparr>,
                \<lparr>code = Some 0, stdout = ''OK'', stderr = []\<rparr>],
             private_key_read = Inr ''PRIVATE KEY'', key_connect = None\<rparr>
          \<lparr>cfg_store = \<lparr>config_file = Some [([],
               \<lparr>host = Some ''203.0.113.10'', user = Some ''deploy'', port = None,
                  authType = Some ''key'', keyPath = Some ''~/.ssh/id_rsa'', passphrase = None,
                  other = []\<rparr>)],
             keychain = Map.empty, delete_missing_raises = False\<rparr>,
             ssh = 0, trace = []\<rparr>) = Done \<and>
   listServers (cfg_store (snd (init ''web1''
          \<lparr>replace_answer = False, host_answer = ''203.0.113.10'', user_answer = ''deploy'',
             port_answer = PNum 22, password_answer = ''secret'', private_key_present = True,
             keygen_error = None, password_connect = None,
             public_key_read = Inr (Some ''ssh-rsa AAAA k''),
             remote_exec = scripted
               [\<lparr>code = Some 0, stdout = [], stderr = []\<rparr>,
                \<lparr>code = Some 0, stdout = [], stderr = []\<rparr>,
                \<lparr>code = Some 0, stdout = [], stderr = []\<rparr>,
                \<lparr>code = Some 0, stdout = ''OK'', stderr = []\<rparr>],
             private_key_read = Inr ''PRIVATE KEY'', key_connect = None\<rparr>
          \<lparr>cfg_store = \<lparr>config_file = Some [([],
               \<lparr>host = Some ''203.0.113.10'', user = Some ''deploy'', port = None,
                  authType = Some ''key'', keyPath = Some ''~/.ssh/id_rsa'', passphrase = None,
                  other = []\<rparr>)],
             keychain = Map.empty, delete_missing_raises = False\<rparr>,
             ssh = 0, trace = []\<rparr>))) = [[], ''web1'']"
  by code_simp

end
